theory Spec2Isabelle
  imports Main "HOL-Library.Sublist" "HOL-Library.Word"
begin

unbundle bit_operations_syntax

text \<open>
  The program \<^verbatim>\<open>extract.ts\<close> posts a music URL to an analysis API
  (\<^verbatim>\<open>fetchMusicAnalysis\<close>) and saves the artifacts of the response, which arrive as data
  URLs or raw base64, to files (\<^verbatim>\<open>processAnalysisResults\<close>, with the helpers
  \<^verbatim>\<open>stripDataUrlPrefixAndGetBase64\<close> and \<^verbatim>\<open>decodeAndSave\<close>). The functions are
  embedded with their names; the console, the file system and the network are explicit.
\<close>

section \<open>JavaScript strings\<close>

text \<open>
  A JavaScript string is modelled as a \<^typ>\<open>string\<close>, a list of code units; data URLs
  and base64 text are ASCII. The operations below are the ones \<^verbatim>\<open>extract.ts\<close> calls
  on strings: \<^verbatim>\<open>split\<close>, \<^verbatim>\<open>join\<close>, \<^verbatim>\<open>includes\<close>, \<^verbatim>\<open>substring(0, n)\<close>
  (which is \<^term>\<open>take n\<close>) and \<^verbatim>\<open>trim\<close>.
\<close>

text \<open>\<^verbatim>\<open>s.split(sep)\<close> for a separator of one code unit: never the empty array.\<close>

fun js_split :: "char \<Rightarrow> string \<Rightarrow> string list" where
  "js_split sep [] = [[]]"
| "js_split sep (c # cs) =
     (if c = sep then [] # js_split sep cs
      else (case js_split sep cs of
              [] \<Rightarrow> [[c]]
            | p # ps \<Rightarrow> (c # p) # ps))"

text \<open>\<^verbatim>\<open>parts.join(sep)\<close>.\<close>

fun js_join :: "char \<Rightarrow> string list \<Rightarrow> string" where
  "js_join sep [] = []"
| "js_join sep [p] = p"
| "js_join sep (p # q # ps) = p @ sep # js_join sep (q # ps)"

text \<open>\<^verbatim>\<open>s.includes(m)\<close>: \<open>m\<close> occurs in \<open>s\<close> as a contiguous run.\<close>

definition js_includes :: "string \<Rightarrow> string \<Rightarrow> bool" where
  "js_includes s m = sublist m s"

text \<open>
  The white space and line terminators \<^verbatim>\<open>trim\<close> removes, among the code units below
  256: tab, line feed, vertical tab, form feed, carriage return, space and the no-break
  space.
\<close>

definition js_whitespace :: "char \<Rightarrow> bool" where
  "js_whitespace c = (of_char c \<in> {9, 10, 11, 12, 13, 32, 160 :: nat})"

definition js_trim :: "string \<Rightarrow> string" where
  "js_trim s = rev (dropWhile js_whitespace (rev (dropWhile js_whitespace s)))"

text \<open>Truthiness of a value of type \<^verbatim>\<open>string | undefined\<close>: defined and not empty.\<close>

definition truthy :: "string option \<Rightarrow> bool" where
  "truthy v = (case v of None \<Rightarrow> False | Some s \<Rightarrow> s \<noteq> [])"

section \<open>Base64\<close>

type_synonym byte = "8 word"

text \<open>
  Modelled from the spec: \<^verbatim>\<open>Buffer.from(s, 'base64')\<close> belongs to the Node.js runtime and
  is not part of the repository; the spec calls it the base64-decode step. The model
  follows the runtime's decoder, which is lenient: a table maps each code unit to its
  six-bit value, accepting the standard and the URL-safe alphabet; the input is read left
  to right, a code unit without a value is skipped, and decoding stops at the first
  \<^verbatim>\<open>=\<close>. Four values give three bytes, a final three give two, a final two give one,
  and a single left-over value gives none. It returns a buffer for every string.
\<close>

definition unbase64 :: "char \<Rightarrow> byte option" where
  "unbase64 c =
     (let n = (of_char c :: nat) in
      if 65 \<le> n \<and> n \<le> 90 then Some (of_nat (n - 65))
      else if 97 \<le> n \<and> n \<le> 122 then Some (of_nat (n - 71))
      else if 48 \<le> n \<and> n \<le> 57 then Some (of_nat (n + 4))
      else if n = 43 \<or> n = 45 then Some 62
      else if n = 47 \<or> n = 95 then Some 63
      else None)"

text \<open>
  Modelled from the spec: the six-bit values the decoder reads from a string, up to the
  first \<^verbatim>\<open>=\<close>, code units without a value skipped.
\<close>

fun base64_sextets :: "string \<Rightarrow> byte list" where
  "base64_sextets [] = []"
| "base64_sextets (c # cs) =
     (if c = CHR ''='' then []
      else (case unbase64 c of
              None \<Rightarrow> base64_sextets cs
            | Some v \<Rightarrow> v # base64_sextets cs))"

text \<open>
  Modelled from the spec: the bytes of a sequence of six-bit values, with the decoder's
  shifts and masks.
\<close>

fun decode_sextets :: "byte list \<Rightarrow> byte list" where
  "decode_sextets (s1 # s2 # s3 # s4 # rest) =
     (push_bit 2 (s1 AND 0x3F) OR drop_bit 4 (s2 AND 0x30))
     # (push_bit 4 (s2 AND 0x0F) OR drop_bit 2 (s3 AND 0x3C))
     # (push_bit 6 (s3 AND 0x03) OR (s4 AND 0x3F))
     # decode_sextets rest"
| "decode_sextets [s1, s2, s3] =
     [push_bit 2 (s1 AND 0x3F) OR drop_bit 4 (s2 AND 0x30),
      push_bit 4 (s2 AND 0x0F) OR drop_bit 2 (s3 AND 0x3C)]"
| "decode_sextets [s1, s2] = [push_bit 2 (s1 AND 0x3F) OR drop_bit 4 (s2 AND 0x30)]"
| "decode_sextets [s1] = []"
| "decode_sextets [] = []"

text \<open>Modelled from the spec: \<^verbatim>\<open>Buffer.from(s, 'base64')\<close>, the base64-decode step.\<close>

definition Buffer_from_base64 :: "string \<Rightarrow> byte list" where
  "Buffer_from_base64 s = decode_sextets (base64_sextets s)"

text \<open>
  Modelled from the spec: the encoder of the round-trip property ("encoding arbitrary bytes
  to base64"; RFC 4648, with padding). The repository never calls it: it is what the
  producer of a data URL applies.
\<close>

definition base64_char :: "byte \<Rightarrow> char" where
  "base64_char v =
     (let n = unat v in
      if n < 26 then char_of (n + 65)
      else if n < 52 then char_of (n + 71)
      else if n < 62 then char_of (n - 4)
      else if n = 62 then CHR ''+''
      else CHR ''/'')"

fun base64_encode :: "byte list \<Rightarrow> string" where
  "base64_encode (a # b # c # rest) =
     base64_char (drop_bit 2 a)
     # base64_char (push_bit 4 (a AND 3) OR drop_bit 4 b)
     # base64_char (push_bit 2 (b AND 15) OR drop_bit 6 c)
     # base64_char (c AND 63)
     # base64_encode rest"
| "base64_encode [a, b] =
     [base64_char (drop_bit 2 a),
      base64_char (push_bit 4 (a AND 3) OR drop_bit 4 b),
      base64_char (push_bit 2 (b AND 15)),
      CHR ''='']"
| "base64_encode [a] =
     [base64_char (drop_bit 2 a), base64_char (push_bit 4 (a AND 3)), CHR ''='', CHR ''='']"
| "base64_encode [] = []"

text \<open>The data URL \<^verbatim>\<open>data:<mime>;base64,<payload>\<close>.\<close>

definition data_url :: "string \<Rightarrow> string \<Rightarrow> string" where
  "data_url mime payload = ''data:'' @ mime @ '';base64,'' @ payload"

section \<open>The console, the file system and exceptions\<close>

text \<open>
  Everything the program does beyond computing values is a change of the world: lines on
  the console, directories and files, and the record of the file-system calls made. The
  file system is an external collaborator that may fail at any call; \<open>faults\<close> lists what
  happens to the upcoming calls, in order (a call beyond the list succeeds), so a theorem
  about every world is a theorem about every pattern of failures.
\<close>

text \<open>
  \<^verbatim>\<open>path.join(dir, name)\<close> denotes the entry \<open>name\<close> of the directory \<open>dir\<close>. Every
  call of the program joins a directory name with a literal file name that has no
  separator, so a path is kept as the pair of the two. \<^verbatim>\<open>path.join\<close> also normalises
  its result (\<^verbatim>\<open>./out\<close> becomes \<^verbatim>\<open>out\<close>, a doubled or trailing separator is dropped);
  the pair keeps \<open>dir\<close> as it is given, so it stands for the path of a directory name
  that is already in normal form, as \<^verbatim>\<open>OUTPUT_DIRECTORY\<close> is.
\<close>

type_synonym path = "string \<times> string"

definition path_join :: "string \<Rightarrow> string \<Rightarrow> path" where
  "path_join dir name = (dir, name)"

text \<open>
  The path as it is interpolated into a message, for a directory name in normal form (for
  another one, the text that Node.js prints is the normalised one; only the wording of
  console lines depends on it, never which file is written).
\<close>

definition path_string :: "path \<Rightarrow> string" where
  "path_string p = fst p @ ''/'' @ snd p"

text \<open>
  What \<^verbatim>\<open>fs.writeFile\<close> is given: a buffer, or a string (stored in its UTF-8 encoding).
\<close>

datatype contents = Bytes "byte list" | Text string

fun truncate_contents :: "nat \<Rightarrow> contents \<Rightarrow> contents" where
  "truncate_contents n (Bytes bs) = Bytes (take n bs)"
| "truncate_contents n (Text s) = Text (take n s)"


datatype fs_call = Mkdir string | WriteFile path contents | Unlink path

datatype js_error = SyntaxError | TypeError | FetchError string | FsError fs_call

datatype level = LOG | WARN | ERROR

datatype extra = NoExtra | ExtraString string | ExtraError js_error

type_synonym log_entry = "level \<times> string \<times> extra"

text \<open>
  The outcome of a file-system call: it succeeds, it fails leaving nothing behind, or (for
  a write) it fails after the first \<open>n\<close> units of the data reached the file.
\<close>

datatype outcome = Succeeds | Fails | FailsAfter nat

record world =
  dirs :: "string set"
  files :: "path \<Rightarrow> contents option"
  console :: "log_entry list"
  calls :: "(fs_call \<times> bool) list"
  faults :: "outcome list"

text \<open>An asynchronous function either returns or rejects, and leaves a world behind.\<close>

datatype 'a result = Return 'a | Throw js_error

definition and_then ::
  "(world \<Rightarrow> 'a result \<times> world) \<Rightarrow> ('a \<Rightarrow> world \<Rightarrow> 'b result \<times> world) \<Rightarrow> world \<Rightarrow> 'b result \<times> world" where
  "and_then m f w = (case m w of (Return v, w') \<Rightarrow> f v w' | (Throw e, w') \<Rightarrow> (Throw e, w'))"

definition try_catch ::
  "(world \<Rightarrow> 'a result \<times> world) \<Rightarrow> (js_error \<Rightarrow> world \<Rightarrow> 'a result \<times> world) \<Rightarrow> world \<Rightarrow> 'a result \<times> world" where
  "try_catch body handler w =
     (case body w of (Return v, w') \<Rightarrow> (Return v, w') | (Throw e, w') \<Rightarrow> handler e w')"

definition console_print :: "level \<Rightarrow> string \<Rightarrow> extra \<Rightarrow> world \<Rightarrow> world" where
  "console_print l msg x w = w\<lparr>console := console w @ [(l, msg, x)]\<rparr>"

definition console_log :: "string \<Rightarrow> world \<Rightarrow> world" where
  "console_log msg = console_print LOG msg NoExtra"

definition console_warn :: "string \<Rightarrow> world \<Rightarrow> world" where
  "console_warn msg = console_print WARN msg NoExtra"

definition console_error :: "string \<Rightarrow> world \<Rightarrow> world" where
  "console_error msg = console_print ERROR msg NoExtra"

definition next_outcome :: "world \<Rightarrow> outcome \<times> world" where
  "next_outcome w =
     (case faults w of [] \<Rightarrow> (Succeeds, w) | f # fs \<Rightarrow> (f, w\<lparr>faults := fs\<rparr>))"

definition called :: "fs_call \<Rightarrow> bool \<Rightarrow> world \<Rightarrow> world" where
  "called c succeeded w = w\<lparr>calls := calls w @ [(c, succeeded)]\<rparr>"

text \<open>\<^verbatim>\<open>fs.mkdir(dir, { recursive: true })\<close>: no error when the directory exists.\<close>

definition fs_mkdir :: "string \<Rightarrow> world \<Rightarrow> unit result \<times> world" where
  "fs_mkdir dir w =
     (let (oc, w1) = next_outcome w in
      if oc = Succeeds
      then (Return (), called (Mkdir dir) True (w1\<lparr>dirs := insert dir (dirs w1)\<rparr>))
      else (Throw (FsError (Mkdir dir)), called (Mkdir dir) False w1))"

text \<open>
  \<^verbatim>\<open>fs.writeFile(path, data)\<close>: fails when the directory is missing or the file system
  fails; a failure part of the way leaves a truncated file.
\<close>

definition fs_writeFile :: "path \<Rightarrow> contents \<Rightarrow> world \<Rightarrow> unit result \<times> world" where
  "fs_writeFile p d w =
     (let (oc, w1) = next_outcome w in
      if fst p \<notin> dirs w1 then (Throw (FsError (WriteFile p d)), called (WriteFile p d) False w1)
      else (case oc of
              Succeeds \<Rightarrow>
                (Return (), called (WriteFile p d) True (w1\<lparr>files := (files w1)(p \<mapsto> d)\<rparr>))
            | Fails \<Rightarrow> (Throw (FsError (WriteFile p d)), called (WriteFile p d) False w1)
            | FailsAfter n \<Rightarrow>
                (Throw (FsError (WriteFile p d)),
                 called (WriteFile p d) False
                   (w1\<lparr>files := (files w1)(p \<mapsto> truncate_contents n d)\<rparr>))))"

text \<open>\<^verbatim>\<open>fs.unlink(path)\<close>: fails when there is no such file or the file system fails.\<close>

definition fs_unlink :: "path \<Rightarrow> world \<Rightarrow> unit result \<times> world" where
  "fs_unlink p w =
     (let (oc, w1) = next_outcome w in
      if oc = Succeeds \<and> files w1 p \<noteq> None
      then (Return (), called (Unlink p) True (w1\<lparr>files := (files w1)(p := None)\<rparr>))
      else (Throw (FsError (Unlink p)), called (Unlink p) False w1))"

section \<open>The data-URL stripper\<close>

definition quote :: string where
  "quote = [CHR 0x27]"

definition dquote :: string where
  "dquote = [CHR 0x22]"

definition newline :: string where
  "newline = [CHR 0x0A]"

text \<open>
  \<^verbatim>\<open>stripDataUrlPrefixAndGetBase64\<close> returns its result (\<open>None\<close> is \<^verbatim>\<open>null\<close>) and the
  lines it prints. Its argument has the type \<^verbatim>\<open>string | undefined\<close>, so the test
  \<^verbatim>\<open>typeof dataUrlString !== 'string'\<close> adds nothing to the test for a falsy value.
\<close>

definition stripDataUrlPrefixAndGetBase64 :: "string option \<Rightarrow> string option \<times> log_entry list" where
  "stripDataUrlPrefixAndGetBase64 dataUrlString =
     (case dataUrlString of
        None \<Rightarrow> (None, [])
      | Some s \<Rightarrow>
          if s = [] then (None, [])
          else
            (let parts = js_split CHR '','' s in
             if length parts > 1 \<and> js_includes (parts ! 0) '';base64''
             then (Some (js_join CHR '','' (drop 1 parts)), [])
             else (Some s,
                   [(WARN,
                     ''String does not appear to be a '' @ quote @ ''data:TYPE;base64,DATA''
                       @ quote @ '' URL: '' @ take 50 s @ ''...'',
                     NoExtra)])))"

section \<open>Decoding and saving one binary artifact\<close>

definition decodeAndSave :: "string option \<Rightarrow> path \<Rightarrow> string \<Rightarrow> world \<Rightarrow> unit result \<times> world" where
  "decodeAndSave dataUrlString filePath fileName w =
     (let (base64Data, warnings) = stripDataUrlPrefixAndGetBase64 dataUrlString;
          w1 = w\<lparr>console := console w @ warnings\<rparr>;
          skip = (Return (),
                  console_warn
                    (''Skipping '' @ fileName
                       @ '': Base64 data is empty or undefined after stripping prefix.'') w1)
      in case base64Data of
           None \<Rightarrow> skip
         | Some b \<Rightarrow>
             if b = [] \<or> js_trim b = [] then skip
             else
               try_catch
                 (\<lambda>w. let buffer = Buffer_from_base64 b in
                       and_then (fs_writeFile filePath (Bytes buffer))
                         (\<lambda>_ w. (Return (),
                                  console_log
                                    (''Successfully saved '' @ fileName @ '' to ''
                                       @ path_string filePath) w)) w)
                 (\<lambda>error w.
                    let w2 = console_print ERROR
                               (''Error decoding/saving '' @ fileName @ '' (path: ''
                                  @ path_string filePath @ ''):'') (ExtraError error) w;
                        w3 = console_error
                               (''Problematic base64 data (first 50 chars): '' @ take 50 b
                                  @ ''...'') w2
                    in try_catch
                         (try_catch (fs_unlink filePath) (\<lambda>_ w. (Return (), w)))
                         (\<lambda>_ w. (Return (), w)) w3)
                 w1)"

section \<open>The requester\<close>

type_synonym MusicAnalysisOutput = "string \<Rightarrow> string option"

text \<open>The field \<^verbatim>\<open>output\<close> is named \<open>api_output\<close> here.\<close>

record ApiPredictionResponse =
  api_output :: "MusicAnalysisOutput option"
  logs :: "string option"
  status :: "string option"
  error :: "string option"

text \<open>The \<^verbatim>\<open>input\<close> object of the request body.\<close>

record PredictionInput =
  music_input :: string
  input_visualize :: bool
  input_sonify :: bool

text \<open>
  What \<^verbatim>\<open>fetch\<close> resolves to: \<^verbatim>\<open>ok\<close>, \<^verbatim>\<open>status\<close>, \<^verbatim>\<open>statusText\<close>, and what the
  calls \<^verbatim>\<open>text()\<close> and \<^verbatim>\<open>json()\<close> give, each of which may reject. A body that parses
  to \<^verbatim>\<open>null\<close> is \<open>Inr None\<close>; reading a property of it raises a \<^verbatim>\<open>TypeError\<close>.
\<close>

record Response =
  ok :: bool
  status_code :: nat
  statusText :: string
  body_text :: "js_error + string"
  body_json :: "js_error + ApiPredictionResponse option"

definition API_URL :: string where
  "API_URL = ''https://music-analysis.lma.sh/predictions''"

definition OUTPUT_DIRECTORY :: string where
  "OUTPUT_DIRECTORY = ''analysis_results''"

text \<open>A number interpolated into a message.\<close>

fun string_of_nat :: "nat \<Rightarrow> string" where
  "string_of_nat n =
     (if n < 10 then [char_of (48 + n)]
      else string_of_nat (n div 10) @ [char_of (48 + n mod 10)])"

declare string_of_nat.simps [simp del]

text \<open>
  \<^verbatim>\<open>fetchMusicAnalysis\<close>; the network is the parameter \<open>fetch\<close>, which answers the POST of
  the payload to the URL with a response or rejects.
\<close>

definition fetchMusicAnalysis ::
  "(string \<Rightarrow> PredictionInput \<Rightarrow> js_error + Response) \<Rightarrow> string \<Rightarrow> bool \<Rightarrow> bool \<Rightarrow> world
     \<Rightarrow> ApiPredictionResponse option result \<times> world" where
  "fetchMusicAnalysis fetch musicInputUrl visualize sonify w =
     (let w0 = console_log (''Fetching analysis for: '' @ musicInputUrl) w;
          payload = \<lparr>music_input = musicInputUrl, input_visualize = visualize,
                     input_sonify = sonify\<rparr>
      in try_catch
           (\<lambda>w. case fetch API_URL payload of
                   Inl e \<Rightarrow> (Throw e, w)
                 | Inr response \<Rightarrow>
                     if \<not> ok response then
                       (case body_text response of
                          Inl e \<Rightarrow> (Throw e, w)
                        | Inr errorBody \<Rightarrow>
                            (Return None,
                             console_print ERROR
                               (''API request failed: '' @ string_of_nat (status_code response)
                                  @ '' '' @ statusText response)
                               (ExtraString errorBody) w))
                     else
                       (case body_json response of
                          Inl e \<Rightarrow> (Throw e, w)
                        | Inr None \<Rightarrow>
                            (Throw TypeError, console_log ''Successfully fetched analysis data.'' w)
                        | Inr (Some data) \<Rightarrow>
                            (let w1 = console_log ''Successfully fetched analysis data.'' w;
                                 w2 = (if truthy (status data) \<and> status data \<noteq> Some ''succeeded''
                                       then
                                         (let w3 = console_warn
                                                     (''API returned status: ''
                                                        @ (case status data of None \<Rightarrow> [] | Some t \<Rightarrow> t))
                                                     w1
                                          in case error data of
                                               None \<Rightarrow> w3
                                             | Some err \<Rightarrow>
                                                 if err = [] then w3
                                                 else console_error (''API Error: '' @ err) w3)
                                       else w1)
                             in (Return (Some data), w2))))
           (\<lambda>error w.
              (Return None,
               console_print ERROR ''Error fetching music analysis:'' (ExtraError error) w))
           w0)"

section \<open>The persister\<close>

text \<open>
  \<^verbatim>\<open>Buffer.toString('utf-8')\<close>, \<^verbatim>\<open>JSON.parse\<close> (\<open>None\<close> when it raises a
  \<^verbatim>\<open>SyntaxError\<close>) and \<^verbatim>\<open>JSON.stringify(_, null, 2)\<close> belong to the runtime; the model
  takes them as parameters, with \<open>'j\<close> the type of parsed JSON values, so what is proved
  of the persister holds whatever these three functions are.
\<close>

record 'j runtime =
  toString_utf8 :: "byte list \<Rightarrow> string"
  JSON_parse :: "string \<Rightarrow> 'j option"
  JSON_stringify :: "'j \<Rightarrow> string"

definition audioFileKeys :: "string list" where
  "audioFileKeys =
     [''demucs_bass'', ''demucs_drums'', ''demucs_guitar'', ''demucs_other'',
      ''demucs_piano'', ''demucs_vocals'', ''mdx_instrumental'', ''mdx_other'',
      ''mdx_vocals'', ''sonification'']"

text \<open>The block "Process analyzer_result (JSON)" of \<^verbatim>\<open>processAnalysisResults\<close>.\<close>

definition analyzer_result_block ::
  "'j runtime \<Rightarrow> MusicAnalysisOutput \<Rightarrow> string \<Rightarrow> world \<Rightarrow> unit result \<times> world" where
  "analyzer_result_block rt out outputDir w =
     (if truthy (out ''analyzer_result'') then
        (let analysisFilePath = path_join outputDir ''analysis.json'';
             (base64JsonData, warnings) = stripDataUrlPrefixAndGetBase64 (out ''analyzer_result'');
             w1 = w\<lparr>console := console w @ warnings\<rparr>;
             absent = (Return (),
                       console_warn
                         (''analyzer_result was present but became null/empty after ''
                            @ ''attempting to strip data URL prefix.'') w1)
         in case base64JsonData of
              None \<Rightarrow> absent
            | Some b \<Rightarrow>
                if b = [] then absent
                else
                  try_catch
                    (\<lambda>w. let decodedJsonString = toString_utf8 rt (Buffer_from_base64 b) in
                          case JSON_parse rt decodedJsonString of
                            None \<Rightarrow> (Throw SyntaxError, w)
                          | Some analysisData \<Rightarrow>
                              and_then
                                (fs_writeFile analysisFilePath
                                   (Text (JSON_stringify rt analysisData)))
                                (\<lambda>_ w. (Return (),
                                         console_log
                                           (''Successfully saved analysis.json to ''
                                              @ path_string analysisFilePath) w)) w)
                    (\<lambda>error w.
                       let w2 = console_print ERROR
                                  ''Error processing analyzer_result for analysis.json:''
                                  (ExtraError error) w;
                           w3 = console_error
                                  (''Problematic base64 for JSON (first 50 chars): ''
                                     @ take 50 b @ ''...'') w2;
                           errorFilePath = path_join outputDir ''_error_analyzer_result_content.txt''
                       in and_then
                            (try_catch
                               (\<lambda>w. let decodedForErrorFile =
                                             toString_utf8 rt (Buffer_from_base64 b)
                                     in fs_writeFile errorFilePath
                                          (Text (''Attempted to decode this as JSON (from base64):''
                                                   @ newline @ newline @ decodedForErrorFile)) w)
                               (\<lambda>e w.
                                  fs_writeFile errorFilePath
                                    (Text (''Could not even base64 decode this for the error file. ''
                                             @ ''Original base64 (after prefix strip):''
                                             @ newline @ newline @ b)) w))
                            (\<lambda>_ w. (Return (),
                                     console_error
                                       (''Saved problematic decoded content (or base64) to ''
                                          @ path_string errorFilePath) w)) w3)
                    w1)
      else (Return (), console_warn ''analyzer_result not found in output.'' w))"

text \<open>The block "Process visualization (PNG)".\<close>

definition visualization_block ::
  "MusicAnalysisOutput \<Rightarrow> string \<Rightarrow> world \<Rightarrow> unit result \<times> world" where
  "visualization_block out outputDir w =
     (if truthy (out ''visualization'') then
        (let visFilePath = path_join outputDir ''visualization.png''
         in decodeAndSave (out ''visualization'') visFilePath ''visualization.png'' w)
      else (Return (), console_warn ''visualization not found in output.'' w))"

text \<open>The loop \<^verbatim>\<open>for (const key of audioFileKeys)\<close>, over the keys still to come.\<close>

fun audio_loop ::
  "MusicAnalysisOutput \<Rightarrow> string \<Rightarrow> string list \<Rightarrow> world \<Rightarrow> unit result \<times> world" where
  "audio_loop out outputDir [] w = (Return (), w)"
| "audio_loop out outputDir (key # keys) w =
     (let dataUrlString = out key in
      if truthy dataUrlString then
        (let fileExtension = (if key = ''sonification'' then ''.mp3'' else ''.wav'');
             fileName = key @ fileExtension;
             filePath = path_join outputDir fileName
         in and_then (decodeAndSave dataUrlString filePath fileName)
              (\<lambda>_. audio_loop out outputDir keys) w)
      else audio_loop out outputDir keys
             (console_warn (key @ '' not found in output or is empty.'') w))"

definition processAnalysisResults ::
  "'j runtime \<Rightarrow> ApiPredictionResponse \<Rightarrow> string \<Rightarrow> world \<Rightarrow> unit result \<times> world" where
  "processAnalysisResults rt apiResponse outputDir w =
     (case api_output apiResponse of
        None \<Rightarrow>
          (let w1 = console_error
                      (''No '' @ dquote @ ''output'' @ dquote @ '' data found. Cannot process.'') w
           in (Return (),
               (case error apiResponse of
                  None \<Rightarrow> w1
                | Some err \<Rightarrow>
                    if err = [] then w1 else console_error (''API Error was: '' @ err) w1)))
      | Some out \<Rightarrow>
          and_then (fs_mkdir outputDir)
            (\<lambda>_ w.
               and_then (analyzer_result_block rt out outputDir)
                 (\<lambda>_. and_then (visualization_block out outputDir)
                    (\<lambda>_ w.
                       and_then (audio_loop out outputDir audioFileKeys)
                         (\<lambda>_ w. (Return (),
                                  console_log ''--- Finished processing all output fields ---'' w))
                         (console_log (newline @ ''--- Processing Audio Files ---'') w)))
                 (console_log (''Ensured output directory exists: '' @ outputDir) w))
            w)"

section \<open>The catalog of the spec, and sample data\<close>

text \<open>
  The field catalog of the spec: the twelve fields in the order they are processed, and the
  destination file of each.
\<close>

definition catalogued_fields :: "string list" where
  "catalogued_fields = ''analyzer_result'' # ''visualization'' # audioFileKeys"

definition artifact_file :: "string \<Rightarrow> string" where
  "artifact_file k =
     (if k = ''analyzer_result'' then ''analysis.json''
      else if k = ''visualization'' then ''visualization.png''
      else if k = ''sonification'' then ''sonification.mp3''
      else k @ ''.wav'')"

text \<open>The next write to \<open>p\<close> succeeds: its directory exists and no failure comes next.\<close>

definition write_succeeds :: "path \<Rightarrow> world \<Rightarrow> bool" where
  "write_succeeds p w =
     (fst p \<in> dirs w \<and> (case faults w of [] \<Rightarrow> True | f # _ \<Rightarrow> f = Succeeds))"

text \<open>What a run added to the console and to the record of calls.\<close>

definition new_lines :: "world \<Rightarrow> world \<Rightarrow> log_entry list" where
  "new_lines w w' = drop (length (console w)) (console w')"

definition new_calls :: "world \<Rightarrow> world \<Rightarrow> (fs_call \<times> bool) list" where
  "new_calls w w' = drop (length (calls w)) (calls w')"

text \<open>
  A sample runtime for concrete runs: bytes below 128 decode to the code units of the same
  number, and \<^verbatim>\<open>JSON.parse\<close> is cut down to the three literal texts. It is the Node.js
  runtime on the inputs it is used on (ASCII bytes; the texts \<^verbatim>\<open>null\<close>, \<^verbatim>\<open>true\<close>,
  \<^verbatim>\<open>false\<close>, which parse, and \<^verbatim>\<open>{\<close>, which does not).
\<close>

datatype json_literal = JNull | JBool bool

definition literal_runtime :: "json_literal runtime" where
  "literal_runtime =
     \<lparr>toString_utf8 = map (\<lambda>b. char_of (unat b)),
      JSON_parse = (\<lambda>s. if s = ''null'' then Some JNull
                         else if s = ''true'' then Some (JBool True)
                         else if s = ''false'' then Some (JBool False)
                         else None),
      JSON_stringify = (\<lambda>v. case v of JNull \<Rightarrow> ''null''
                                     | JBool b \<Rightarrow> if b then ''true'' else ''false'')\<rparr>"

definition empty_world :: world where
  "empty_world = \<lparr>dirs = {}, files = (\<lambda>_. None), console = [], calls = [], faults = []\<rparr>"

text \<open>A bundle with all twelve fields: the JSON text \<^verbatim>\<open>null\<close> and three bytes for the rest.\<close>

definition sample_bytes :: "string \<Rightarrow> byte list" where
  "sample_bytes k = (if k = ''analyzer_result'' then [0x6E, 0x75, 0x6C, 0x6C] else [0x52, 0x49, 0x46])"

definition sample_mime :: "string \<Rightarrow> string" where
  "sample_mime k =
     (if k = ''analyzer_result'' then ''application/json''
      else if k = ''visualization'' then ''image/png''
      else if k = ''sonification'' then ''audio/mpeg''
      else ''audio/wav'')"

definition sample_output :: MusicAnalysisOutput where
  "sample_output k =
     (if k \<in> set catalogued_fields
      then Some (data_url (sample_mime k) (base64_encode (sample_bytes k)))
      else None)"

definition response_with :: "MusicAnalysisOutput option \<Rightarrow> ApiPredictionResponse" where
  "response_with out = \<lparr>api_output = out, logs = None, status = Some ''succeeded'', error = None\<rparr>"

text \<open>
  The sample bundle with a code unit outside the base64 alphabet inserted into the payload
  of \<^verbatim>\<open>analyzer_result\<close>: \<^verbatim>\<open>bnVsbA==\<close> encodes the text \<^verbatim>\<open>null\<close>.
\<close>

definition lenient_output :: MusicAnalysisOutput where
  "lenient_output = sample_output(''analyzer_result'' \<mapsto> ''data:application/json;base64,bnVs!bA=='')"

text \<open>
  The sample bundle with a payload of \<^verbatim>\<open>analyzer_result\<close> that is not base64 and decodes
  to the text \<^verbatim>\<open>{\<close>, which is not JSON.
\<close>

definition broken_output :: MusicAnalysisOutput where
  "broken_output = sample_output(''analyzer_result'' \<mapsto> ''data:application/json;base64,e!w=='')"


text \<open>The paths of the successful writes among the calls of a run, in order.\<close>

fun written_paths :: "(fs_call \<times> bool) list \<Rightarrow> path list" where
  "written_paths [] = []"
| "written_paths ((WriteFile p d, True) # cs) = p # written_paths cs"
| "written_paths (c # cs) = written_paths cs"

text \<open>
  A string is base64 when it is the encoding of some bytes, that is, when encoding what it
  decodes to gives it back (\<open>is_base64_iff\<close> below).
\<close>

definition is_base64 :: "string \<Rightarrow> bool" where
  "is_base64 s = (base64_encode (Buffer_from_base64 s) = s)"

text \<open>The next \<^verbatim>\<open>mkdir\<close> succeeds: no failure comes next.\<close>

definition mkdir_succeeds :: "world \<Rightarrow> bool" where
  "mkdir_succeeds w = (case faults w of [] \<Rightarrow> True | f # _ \<Rightarrow> f = Succeeds)"

text \<open>
  What a run from \<open>w\<close> to \<open>w'\<close> owes a binary field with value \<open>d\<close>, destination \<open>p\<close>
  and file name \<open>n\<close>, when the value still holds something after stripping and trimming:
  the write of the decoded bytes was made, and either it succeeded and the file holds the
  bytes at the end, or it failed and the two error lines of the field are on the console.
\<close>

definition artifact_handled :: "string option \<Rightarrow> path \<Rightarrow> string \<Rightarrow> world \<Rightarrow> world \<Rightarrow> bool" where
  "artifact_handled d p n w w' =
     (case fst (stripDataUrlPrefixAndGetBase64 d) of
        None \<Rightarrow> True
      | Some b \<Rightarrow>
          if b = [] \<or> js_trim b = [] then True
          else
            (let c = Bytes (Buffer_from_base64 b) in
             ((WriteFile p c, True) \<in> set (new_calls w w') \<and> files w' p = Some c)
             \<or> ((WriteFile p c, False) \<in> set (new_calls w w')
                 \<and> list_ex (\<lambda>l. fst l = ERROR
                                 \<and> prefix (''Error decoding/saving '' @ n) (fst (snd l))
                                 \<and> snd (snd l) = ExtraError (FsError (WriteFile p c)))
                       (new_lines w w')
                 \<and> (ERROR, ''Problematic base64 data (first 50 chars): '' @ take 50 b @ ''...'',
                     NoExtra) \<in> set (new_lines w w'))))"

text \<open>
  What a run owes the JSON field, when its value still holds something after stripping:
  either \<^verbatim>\<open>analysis.json\<close> was written with the serialised value and holds it at the end,
  or the failure (of parsing, or of the write) is on the console.
\<close>

definition json_handled :: "'j runtime \<Rightarrow> string option \<Rightarrow> string \<Rightarrow> world \<Rightarrow> world \<Rightarrow> bool" where
  "json_handled rt d dir w w' =
     (case fst (stripDataUrlPrefixAndGetBase64 d) of
        None \<Rightarrow> True
      | Some b \<Rightarrow>
          if b = [] then True
          else
            (let p = path_join dir ''analysis.json'' in
             case JSON_parse rt (toString_utf8 rt (Buffer_from_base64 b)) of
               None \<Rightarrow>
                 (ERROR, ''Error processing analyzer_result for analysis.json:'',
                  ExtraError SyntaxError) \<in> set (new_lines w w')
             | Some v \<Rightarrow>
                 ((WriteFile p (Text (JSON_stringify rt v)), True) \<in> set (new_calls w w')
                  \<and> files w' p = Some (Text (JSON_stringify rt v)))
                 \<or> ((WriteFile p (Text (JSON_stringify rt v)), False) \<in> set (new_calls w w')
                     \<and> (ERROR, ''Error processing analyzer_result for analysis.json:'',
                         ExtraError (FsError (WriteFile p (Text (JSON_stringify rt v)))))
                        \<in> set (new_lines w w'))))"

text \<open>
  The bundle with the payload of \<^verbatim>\<open>analyzer_result\<close> that is not base64 and does not
  decode to JSON, and with the data URL of no bytes in \<^verbatim>\<open>sonification\<close>.
\<close>

definition broken_empty_output :: MusicAnalysisOutput where
  "broken_empty_output = broken_output(''sonification'' \<mapsto> ''data:audio/mpeg;base64,'')"

text \<open>
  The \<^verbatim>\<open>catch\<close> block of the JSON field, on its own: \<open>analyzer_result_block_reaches_try\<close>
  below shows it is the handler of \<open>analyzer_result_block\<close>.
\<close>

definition analyzer_result_catch ::
  "'j runtime \<Rightarrow> string \<Rightarrow> string \<Rightarrow> js_error \<Rightarrow> world \<Rightarrow> unit result \<times> world" where
  "analyzer_result_catch rt outputDir b err w =
     (let w2 = console_print ERROR
                 ''Error processing analyzer_result for analysis.json:''
                 (ExtraError err) w;
          w3 = console_error
                 (''Problematic base64 for JSON (first 50 chars): ''
                    @ take 50 b @ ''...'') w2;
          errorFilePath = path_join outputDir ''_error_analyzer_result_content.txt''
      in and_then
           (try_catch
              (\<lambda>w. let decodedForErrorFile =
                            toString_utf8 rt (Buffer_from_base64 b)
                    in fs_writeFile errorFilePath
                         (Text (''Attempted to decode this as JSON (from base64):''
                                  @ newline @ newline @ decodedForErrorFile)) w)
              (\<lambda>e w.
                 fs_writeFile errorFilePath
                   (Text (''Could not even base64 decode this for the error file. ''
                            @ ''Original base64 (after prefix strip):''
                            @ newline @ newline @ b)) w))
           (\<lambda>_ w. (Return (),
                    console_error
                      (''Saved problematic decoded content (or base64) to ''
                         @ path_string errorFilePath) w)) w3)"

text \<open>The file name the audio loop gives a key.\<close>

definition audio_file_name :: "string \<Rightarrow> string" where
  "audio_file_name key = key @ (if key = ''sonification'' then ''.mp3'' else ''.wav'')"


section \<open>Strings: splitting and joining\<close>

lemma js_split_not_Nil: "js_split sep s \<noteq> []"
  by (induction s) (auto split: list.splits)

lemma js_split_append:
  "sep \<notin> set p \<Longrightarrow> js_split sep (p @ sep # rest) = p # js_split sep rest"
  by (induction p) auto

lemma js_join_Cons:
  "ps \<noteq> [] \<Longrightarrow> js_join sep (p # ps) = p @ sep # js_join sep ps"
  by (cases ps) auto

lemma js_join_split: "js_join sep (js_split sep s) = s"
proof (induction s)
  case Nil
  then show ?case by simp
next
  case (Cons c cs)
  show ?case
  proof (cases "c = sep")
    case True
    then show ?thesis using Cons by (simp add: js_join_Cons js_split_not_Nil)
  next
    case False
    obtain p ps where ps: "js_split sep cs = p # ps"
      using js_split_not_Nil [of sep cs] by (cases "js_split sep cs") auto
    show ?thesis
    proof (cases ps)
      case Nil
      then show ?thesis using False Cons ps by simp
    next
      case (Cons q qs)
      then show ?thesis using False Cons.IH ps by simp
    qed
  qed
qed

lemma js_split_first: "js_split sep s ! 0 = takeWhile (\<lambda>c. c \<noteq> sep) s"
  by (induction s) (auto split: list.splits simp: js_split_not_Nil)

lemma js_split_length: "Suc 0 < length (js_split sep s) \<longleftrightarrow> sep \<in> set s"
  by (induction s) (auto split: list.splits simp: js_split_not_Nil)

lemma js_trim_Nil_iff: "js_trim s = [] \<longleftrightarrow> (\<forall>c \<in> set s. js_whitespace c)"
proof -
  have "js_trim s = [] \<longleftrightarrow> dropWhile js_whitespace s = []"
  proof
    assume "js_trim s = []"
    then have a: "\<forall>x \<in> set (dropWhile js_whitespace s). js_whitespace x"
      by (simp add: js_trim_def)
    show "dropWhile js_whitespace s = []"
    proof (rule ccontr)
      assume n: "dropWhile js_whitespace s \<noteq> []"
      then have "\<not> js_whitespace (hd (dropWhile js_whitespace s))" by (rule hd_dropWhile)
      moreover have "hd (dropWhile js_whitespace s) \<in> set (dropWhile js_whitespace s)"
        using n by simp
      ultimately show False using a by blast
    qed
  next
    assume "dropWhile js_whitespace s = []"
    then show "js_trim s = []" by (auto simp: js_trim_def dest: set_dropWhileD)
  qed
  also have "\<dots> \<longleftrightarrow> (\<forall>c \<in> set s. js_whitespace c)"
    by (rule dropWhile_eq_Nil_conv)
  finally show ?thesis .
qed

section \<open>Base64: decoding undoes encoding\<close>

lemma unbase64_base64_char_nat:
  assumes "n < 64"
  shows "unbase64 (base64_char (of_nat n)) = Some (of_nat n)"
proof -
  consider "n < 26" | "26 \<le> n" "n < 52" | "52 \<le> n" "n < 62" | "n = 62" | "n = 63"
    using assms by linarith
  then show ?thesis
    by cases (auto simp: unbase64_def base64_char_def Let_def unat_of_nat)
qed

lemma and_63_less: "(c::byte) AND 63 < 64"
proof -
  have "c AND mask 6 < 2 ^ 6" by (rule and_mask_less') simp
  then show ?thesis by (simp add: mask_eq_exp_minus_1)
qed

lemma unbase64_base64_char:
  assumes "(v::byte) AND 63 = v"
  shows "unbase64 (base64_char v) = Some v"
proof -
  have "v < 64" using and_63_less [of v] assms by simp
  then show ?thesis
    using unbase64_base64_char_nat [of "unat v"] by (simp add: word_less_nat_alt)
qed

lemma base64_char_code:
  "(of_char (base64_char v) :: nat) \<in> {43, 47} \<union> {48..57} \<union> {65..90} \<union> {97..122}"
  by (auto simp: base64_char_def Let_def)

lemma base64_char_not_pad: "base64_char v \<noteq> CHR ''=''"
proof
  assume "base64_char v = CHR ''=''"
  then have "(of_char (base64_char v) :: nat) = 61" by simp
  then show False using base64_char_code [of v] by auto
qed

lemma base64_char_not_whitespace: "\<not> js_whitespace (base64_char v)"
  using base64_char_code [of v] by (auto simp: js_whitespace_def)

lemma below_8: "n < (8::nat) \<Longrightarrow> n \<in> {0, 1, 2, 3, 4, 5, 6, 7}"
  by auto

lemma byte_eqI:
  fixes a b :: byte
  assumes "\<And>n. n \<in> {0, 1, 2, 3, 4, 5, 6, 7} \<Longrightarrow> bit a n = bit b n"
  shows "a = b"
proof (rule bit_word_eqI)
  fix n
  assume "n < LENGTH(8)"
  then have "n \<in> {0, 1, 2, 3, 4, 5, 6, 7}" using below_8 [of n] by simp
  then show "bit a n = bit b n" by (rule assms)
qed

lemmas byte_bits = bit_simps numeral_2_eq_2 [symmetric] numeral_3_eq_3 [symmetric]

text \<open>The four six-bit values of a group of three bytes are below 64.\<close>

lemma sextet_1: "drop_bit 2 a AND 63 = (drop_bit 2 a :: byte)"
  by (rule byte_eqI) (auto simp: byte_bits dest: bit_imp_le_length)

lemma sextet_2:
  "(push_bit 4 (a AND 3) OR drop_bit 4 b) AND 63 = (push_bit 4 (a AND 3) OR drop_bit 4 b :: byte)"
  by (rule byte_eqI) (auto simp: byte_bits dest: bit_imp_le_length)

lemma sextet_3:
  "(push_bit 2 (b AND 15) OR drop_bit 6 c) AND 63 = (push_bit 2 (b AND 15) OR drop_bit 6 c :: byte)"
  by (rule byte_eqI) (auto simp: byte_bits dest: bit_imp_le_length)

lemma sextet_4: "(c AND 63) AND 63 = (c :: byte) AND 63"
  by (rule byte_eqI) (auto simp: byte_bits)

lemma sextet_2_last: "push_bit 4 (a AND 3) AND 63 = (push_bit 4 (a AND 3) :: byte)"
  by (rule byte_eqI) (auto simp: byte_bits)

lemma sextet_3_last: "push_bit 2 (b AND 15) AND 63 = (push_bit 2 (b AND 15) :: byte)"
  by (rule byte_eqI) (auto simp: byte_bits)

lemmas sextets = sextet_1 sextet_2 sextet_3 sextet_4 sextet_2_last sextet_3_last

text \<open>The decoder's shifts and masks undo the encoder's.\<close>

lemma byte_1:
  "push_bit 2 (drop_bit 2 a) OR drop_bit 4 ((push_bit 4 (a AND 3) OR drop_bit 4 b) AND 0x30) = (a::byte)"
  by (rule byte_eqI) (auto simp: byte_bits)

lemma byte_2:
  "push_bit 4 ((push_bit 4 (a AND 3) OR drop_bit 4 b) AND 0x0F)
     OR drop_bit 2 ((push_bit 2 (b AND 15) OR drop_bit 6 c) AND 0x3C) = (b::byte)"
  by (rule byte_eqI) (auto simp: byte_bits)

lemma byte_3:
  "push_bit 6 ((push_bit 2 (b AND 15) OR drop_bit 6 c) AND 0x03) OR (c AND 63) = (c::byte)"
  by (rule byte_eqI) (auto simp: byte_bits)

lemma byte_1_last:
  "push_bit 2 (drop_bit 2 a) OR drop_bit 4 (push_bit 4 (a AND 3) AND 0x30) = (a::byte)"
  by (rule byte_eqI) (auto simp: byte_bits)

lemma byte_2_last:
  "push_bit 4 ((push_bit 4 (a AND 3) OR drop_bit 4 b) AND 0x0F)
     OR drop_bit 2 (push_bit 2 (b AND 15) AND 0x3C) = (b::byte)"
  by (rule byte_eqI) (auto simp: byte_bits)

lemma base64_sextets_char:
  "v AND 63 = v \<Longrightarrow> base64_sextets (base64_char v # cs) = v # base64_sextets cs"
  by (simp add: base64_char_not_pad unbase64_base64_char)

lemma base64_sextets_pad: "base64_sextets (CHR ''='' # cs) = []"
  by simp

lemma Buffer_from_base64_encode: "Buffer_from_base64 (base64_encode bs) = bs"
  unfolding Buffer_from_base64_def
proof (induction bs rule: base64_encode.induct)
  case (1 a b c rest)
  then show ?case
    by (simp only: base64_encode.simps base64_sextets_char sextets decode_sextets.simps
          byte_1 byte_2 byte_3)
next
  case (2 a b)
  then show ?case
    by (simp only: base64_encode.simps base64_sextets_char sextets decode_sextets.simps
          byte_1 byte_2_last base64_sextets_pad)
next
  case (3 a)
  then show ?case
    by (simp only: base64_encode.simps base64_sextets_char sextets decode_sextets.simps
          byte_1_last base64_sextets_pad)
next
  case 4
  then show ?case by simp
qed

lemma base64_encode_not_blank: "bs \<noteq> [] \<Longrightarrow> js_trim (base64_encode bs) \<noteq> []"
proof -
  assume "bs \<noteq> []"
  then obtain v cs where "base64_encode bs = base64_char v # cs"
    by (cases bs rule: base64_encode.cases) auto
  then show ?thesis
    using base64_char_not_whitespace [of v] by (auto simp: js_trim_Nil_iff)
qed

lemma base64_encode_not_Nil: "bs \<noteq> [] \<Longrightarrow> base64_encode bs \<noteq> []"
  using base64_encode_not_blank [of bs] by (auto simp: js_trim_def)

section \<open>The stripper\<close>

lemma data_url_prefix_marker: "js_includes (''data:'' @ mime @ '';base64'') '';base64''"
  unfolding js_includes_def sublist_def
  by (intro exI [of _ "''data:'' @ mime"] exI [of _ "[]"]) simp

lemma strip_prefixed:
  assumes "CHR '','' \<notin> set pre" and "js_includes pre '';base64''"
  shows "stripDataUrlPrefixAndGetBase64 (Some (pre @ CHR '','' # payload)) = (Some payload, [])"
proof -
  have "js_split CHR '','' (pre @ CHR '','' # payload) = pre # js_split CHR '','' payload"
    using assms(1) by (rule js_split_append)
  then show ?thesis
    using assms(2) by (simp add: stripDataUrlPrefixAndGetBase64_def js_split_not_Nil js_join_split)
qed

lemma strip_of_data_url:
  assumes "CHR '','' \<notin> set mime"
  shows "stripDataUrlPrefixAndGetBase64 (Some (data_url mime payload)) = (Some payload, [])"
proof -
  have "data_url mime payload = (''data:'' @ mime @ '';base64'') @ CHR '','' # payload"
    by (simp add: data_url_def)
  moreover have "CHR '','' \<notin> set (''data:'' @ mime @ '';base64'')"
    using assms by simp
  ultimately show ?thesis
    using strip_prefixed [OF _ data_url_prefix_marker] by simp
qed

text \<open>
  C7. For a data URL \<^verbatim>\<open>data:<mime>;base64,<payload>\<close> (the media type, which ends at the
  first comma, holds no comma) the stripper returns exactly the payload, commas of the
  payload included, and prints nothing.
\<close>

theorem strip_returns_payload:
  "CHR '','' \<notin> set mime \<Longrightarrow>
   stripDataUrlPrefixAndGetBase64 (Some (data_url mime payload)) = (Some payload, [])"
  by (rule strip_of_data_url)

theorem strip_returns_payload_witness:
  "CHR '','' \<notin> set ''audio/wav'' \<and>
   stripDataUrlPrefixAndGetBase64 (Some ''data:audio/wav;base64,UklG,AA=='')
     = (Some ''UklG,AA=='', [])"
  using strip_returns_payload [of "''audio/wav''" "''UklG,AA==''"] by (simp add: data_url_def)

text \<open>
  C6, as stated, fails at the empty string: it has no marker and no comma, and the stripper
  returns \<^verbatim>\<open>null\<close> for it and prints no warning.
\<close>

theorem strip_empty_string_is_null:
  "\<not> js_includes [] '';base64'' \<and> CHR '','' \<notin> set [] \<and>
   stripDataUrlPrefixAndGetBase64 (Some []) = (None, []) \<and>
   fst (stripDataUrlPrefixAndGetBase64 (Some [])) \<noteq> Some []"
  by (simp add: stripDataUrlPrefixAndGetBase64_def js_includes_def)

text \<open>
  C6, amended. For every non-empty string with no \<^verbatim>\<open>;base64\<close> marker in the segment
  before its first comma, or with no comma at all, the stripper returns the string unchanged
  and prints one warning, which shows the first 50 code units of the string.
\<close>

theorem strip_passes_through:
  assumes "s \<noteq> []"
    and "\<not> js_includes (takeWhile (\<lambda>c. c \<noteq> CHR '','') s) '';base64'' \<or> CHR '','' \<notin> set s"
  shows "stripDataUrlPrefixAndGetBase64 (Some s) =
           (Some s,
            [(WARN,
              ''String does not appear to be a '' @ quote @ ''data:TYPE;base64,DATA''
                @ quote @ '' URL: '' @ take 50 s @ ''...'',
              NoExtra)])"
  using assms
  by (auto simp: stripDataUrlPrefixAndGetBase64_def Let_def js_split_first js_split_length)

theorem strip_passes_through_witness:
  "''text/plain,QUJD'' \<noteq> [] \<and>
   \<not> js_includes (takeWhile (\<lambda>c. c \<noteq> CHR '','') ''text/plain,QUJD'') '';base64'' \<and>
   stripDataUrlPrefixAndGetBase64 (Some ''text/plain,QUJD'') =
     (Some ''text/plain,QUJD'',
      [(WARN, ''String does not appear to be a 'data:TYPE;base64,DATA' URL: text/plain,QUJD...'',
        NoExtra)]) \<and>
   CHR '','' \<notin> set ''QUJD;base64'' \<and>
   stripDataUrlPrefixAndGetBase64 (Some ''QUJD;base64'') =
     (Some ''QUJD;base64'',
      [(WARN, ''String does not appear to be a 'data:TYPE;base64,DATA' URL: QUJD;base64...'',
        NoExtra)])"
proof -
  have m: "\<not> js_includes (takeWhile (\<lambda>c. c \<noteq> CHR '','') ''text/plain,QUJD'') '';base64''"
    by (simp add: js_includes_def sublist_code)
  show ?thesis
    using m strip_passes_through [of "''text/plain,QUJD''"]
      strip_passes_through [of "''QUJD;base64''"]
    by (simp add: quote_def)
qed

text \<open>
  C3. Round trip: bytes encoded to base64 and wrapped as a data URL come back unchanged from
  the stripper followed by the runtime's base64 decoder.
\<close>

theorem data_url_round_trip:
  "CHR '','' \<notin> set mime \<Longrightarrow>
   map_option Buffer_from_base64
     (fst (stripDataUrlPrefixAndGetBase64 (Some (data_url mime (base64_encode bs))))) = Some bs"
  by (simp add: strip_of_data_url Buffer_from_base64_encode)

theorem data_url_round_trip_witness:
  "CHR '','' \<notin> set ''image/png'' \<and>
   data_url ''image/png'' (base64_encode [0x52, 0x49, 0x46, 0x46]) = ''data:image/png;base64,UklGRg=='' \<and>
   map_option Buffer_from_base64
     (fst (stripDataUrlPrefixAndGetBase64 (Some ''data:image/png;base64,UklGRg==''))) =
     Some [0x52, 0x49, 0x46, 0x46]"
proof -
  have e: "data_url ''image/png'' (base64_encode [0x52, 0x49, 0x46, 0x46 :: byte])
             = ''data:image/png;base64,UklGRg==''"
    by code_simp
  show ?thesis
    using e data_url_round_trip [of "''image/png''" "[0x52, 0x49, 0x46, 0x46]"] by simp
qed

section \<open>File-system calls\<close>

lemma fs_writeFile_succeeds:
  assumes "write_succeeds p w"
  shows "fs_writeFile p d w =
           (Return (),
            w\<lparr>files := (files w)(p \<mapsto> d), calls := calls w @ [(WriteFile p d, True)],
              faults := tl (faults w)\<rparr>)"
  using assms
  by (cases "faults w")
     (auto simp: fs_writeFile_def next_outcome_def write_succeeds_def called_def)

lemma fs_writeFile_fails:
  assumes "\<not> write_succeeds p w"
  shows "\<exists>w'. fs_writeFile p d w = (Throw (FsError (WriteFile p d)), w')
           \<and> console w' = console w \<and> dirs w' = dirs w
           \<and> calls w' = calls w @ [(WriteFile p d, False)]
           \<and> faults w' = tl (faults w)"
proof (cases "faults w")
  case Nil
  then show ?thesis
    using assms by (simp add: fs_writeFile_def next_outcome_def write_succeeds_def called_def)
next
  case (Cons f fs)
  then show ?thesis
    using assms
    by (cases f) (auto simp: fs_writeFile_def next_outcome_def write_succeeds_def called_def)
qed

lemma fs_unlink_cases:
  "\<exists>r w' u. fs_unlink p w = (r, w')
      \<and> console w' = console w \<and> dirs w' = dirs w
      \<and> calls w' = calls w @ [(Unlink p, u)]
      \<and> faults w' = tl (faults w)
      \<and> (u \<longrightarrow> r = Return () \<and> files w' p = None)
      \<and> (\<not> u \<longrightarrow> r = Throw (FsError (Unlink p)))"
  by (cases "faults w") (auto simp: fs_unlink_def next_outcome_def called_def)

lemma write_succeeds_console [simp]:
  "write_succeeds p (w\<lparr>console := c\<rparr>) = write_succeeds p w"
  by (simp add: write_succeeds_def)

section \<open>Decoding and saving one artifact\<close>

text \<open>What \<^verbatim>\<open>decodeAndSave\<close> prints when the \<^verbatim>\<open>try\<close> block has thrown \<open>e\<close>.\<close>

lemma decodeAndSave_reaches_try:
  assumes "stripDataUrlPrefixAndGetBase64 d = (Some b, ws)" and "b \<noteq> []" and "js_trim b \<noteq> []"
  shows "decodeAndSave d p n w =
           try_catch
             (\<lambda>w. and_then (fs_writeFile p (Bytes (Buffer_from_base64 b)))
                     (\<lambda>_ w. (Return (),
                              console_log (''Successfully saved '' @ n @ '' to '' @ path_string p) w)) w)
             (\<lambda>error w.
                try_catch (try_catch (fs_unlink p) (\<lambda>_ w. (Return (), w))) (\<lambda>_ w. (Return (), w))
                  (console_error
                     (''Problematic base64 data (first 50 chars): '' @ take 50 b @ ''...'')
                     (console_print ERROR
                        (''Error decoding/saving '' @ n @ '' (path: '' @ path_string p @ ''):'')
                        (ExtraError error) w)))
             (w\<lparr>console := console w @ ws\<rparr>)"
  using assms by (simp add: decodeAndSave_def Let_def)

lemma decodeAndSave_saves:
  assumes "stripDataUrlPrefixAndGetBase64 d = (Some b, ws)" and "b \<noteq> []" and "js_trim b \<noteq> []"
    and "write_succeeds p w"
  shows "decodeAndSave d p n w =
           (Return (),
            w\<lparr>files := (files w)(p \<mapsto> Bytes (Buffer_from_base64 b)),
              console := console w @ ws
                 @ [(LOG, ''Successfully saved '' @ n @ '' to '' @ path_string p, NoExtra)],
              calls := calls w @ [(WriteFile p (Bytes (Buffer_from_base64 b)), True)],
              faults := tl (faults w)\<rparr>)"
proof -
  have "write_succeeds p (w\<lparr>console := console w @ ws\<rparr>)"
    using assms(4) by simp
  then show ?thesis
    unfolding decodeAndSave_reaches_try [OF assms(1-3)]
    by (simp add: try_catch_def and_then_def fs_writeFile_succeeds console_log_def
          console_print_def)
qed

lemma decodeAndSave_cleans_up:
  assumes "stripDataUrlPrefixAndGetBase64 d = (Some b, ws)" and "b \<noteq> []" and "js_trim b \<noteq> []"
    and "\<not> write_succeeds p w"
  shows "\<exists>w' u. decodeAndSave d p n w = (Return (), w')
           \<and> console w' = console w @ ws
               @ [(ERROR, ''Error decoding/saving '' @ n @ '' (path: '' @ path_string p @ ''):'',
                   ExtraError (FsError (WriteFile p (Bytes (Buffer_from_base64 b))))),
                  (ERROR, ''Problematic base64 data (first 50 chars): '' @ take 50 b @ ''...'',
                   NoExtra)]
           \<and> calls w' = calls w
               @ [(WriteFile p (Bytes (Buffer_from_base64 b)), False), (Unlink p, u)]
           \<and> dirs w' = dirs w
           \<and> faults w' = tl (tl (faults w))
           \<and> (u \<longrightarrow> files w' p = None)"
proof -
  let ?w1 = "w\<lparr>console := console w @ ws\<rparr>"
  let ?d = "Bytes (Buffer_from_base64 b)"
  have "\<not> write_succeeds p ?w1" using assms(4) by simp
  from fs_writeFile_fails [OF this, of ?d]
  obtain w2 where w2: "fs_writeFile p ?d ?w1 = (Throw (FsError (WriteFile p ?d)), w2)"
    "console w2 = console w @ ws" "dirs w2 = dirs w"
    "calls w2 = calls w @ [(WriteFile p ?d, False)]" "faults w2 = tl (faults w)"
    by auto
  let ?w3 = "console_error (''Problematic base64 data (first 50 chars): '' @ take 50 b @ ''...'')
               (console_print ERROR
                  (''Error decoding/saving '' @ n @ '' (path: '' @ path_string p @ ''):'')
                  (ExtraError (FsError (WriteFile p ?d))) w2)"
  from fs_unlink_cases [of p ?w3]
  obtain r w4 u where w4: "fs_unlink p ?w3 = (r, w4)"
    "console w4 = console ?w3" "dirs w4 = dirs ?w3" "calls w4 = calls ?w3 @ [(Unlink p, u)]"
    "faults w4 = tl (faults ?w3)"
    "u \<longrightarrow> r = Return () \<and> files w4 p = None" "\<not> u \<longrightarrow> r = Throw (FsError (Unlink p))"
    by blast
  have "decodeAndSave d p n w = (Return (), w4)"
    unfolding decodeAndSave_reaches_try [OF assms(1-3)]
    using w2(1) w4(1) w4(6,7)
    by (cases u) (simp_all add: try_catch_def and_then_def)
  then show ?thesis
    using w2 w4 by (auto simp: console_error_def console_print_def)
qed

lemma decodeAndSave_returns: "fst (decodeAndSave d p n w) = Return ()"
proof (cases "stripDataUrlPrefixAndGetBase64 d")
  case (Pair r ws)
  show ?thesis
  proof (cases r)
    case None
    then show ?thesis using Pair by (simp add: decodeAndSave_def)
  next
    case (Some b)
    show ?thesis
    proof (cases "b = [] \<or> js_trim b = []")
      case True
      then show ?thesis using Pair Some by (auto simp: decodeAndSave_def)
    next
      case False
      then have nb: "b \<noteq> []" "js_trim b \<noteq> []" by auto
      show ?thesis
      proof (cases "write_succeeds p w")
        case True
        then show ?thesis
          using decodeAndSave_saves [OF Pair [unfolded Some] nb] by simp
      next
        case False
        then show ?thesis
          using decodeAndSave_cleans_up [OF Pair [unfolded Some] nb, of p w n] by auto
      qed
    qed
  qed
qed

lemma base64_sextets_skip:
  "unbase64 c = None \<Longrightarrow> c \<noteq> CHR ''='' \<Longrightarrow>
   base64_sextets (xs @ c # ys) = base64_sextets (xs @ ys)"
  by (induction xs) (auto split: option.splits)

text \<open>
  C10. The runtime's base64 decoder is a total function that skips the code units outside
  the alphabet, so for every string \<open>b\<close> that reaches the decode step of
  \<^verbatim>\<open>decodeAndSave\<close> (not empty and not blank after stripping), valid base64 or not: the
  call returns, an error is printed exactly when the write fails, and when the write
  succeeds the file holds the leniently decoded bytes.
\<close>

theorem decodeAndSave_error_only_from_write:
  assumes "stripDataUrlPrefixAndGetBase64 d = (Some b, ws)" and "b \<noteq> []" and "js_trim b \<noteq> []"
  shows "fst (decodeAndSave d p n w) = Return ()
    \<and> ((\<exists>l \<in> set (new_lines w (snd (decodeAndSave d p n w))). fst l = ERROR)
          \<longleftrightarrow> \<not> write_succeeds p w)
    \<and> (write_succeeds p w \<longrightarrow>
          files (snd (decodeAndSave d p n w)) p = Some (Bytes (Buffer_from_base64 b))
          \<and> new_calls w (snd (decodeAndSave d p n w))
              = [(WriteFile p (Bytes (Buffer_from_base64 b)), True)])
    \<and> (unbase64 c = None \<and> c \<noteq> CHR ''='' \<longrightarrow>
          Buffer_from_base64 (xs @ c # ys) = Buffer_from_base64 (xs @ ys))"
proof -
  have warn: "\<forall>l \<in> set ws. fst l = WARN"
    using assms(1)
    by (auto simp: stripDataUrlPrefixAndGetBase64_def Let_def split: option.splits if_splits)
  have skip: "unbase64 c = None \<and> c \<noteq> CHR ''='' \<longrightarrow>
          Buffer_from_base64 (xs @ c # ys) = Buffer_from_base64 (xs @ ys)"
    by (simp add: Buffer_from_base64_def base64_sextets_skip)
  show ?thesis
  proof (cases "write_succeeds p w")
    case True
    show ?thesis
      using True warn skip decodeAndSave_saves [OF assms True, of n]
      by (auto simp: new_lines_def new_calls_def)
  next
    case False
    from decodeAndSave_cleans_up [OF assms False, of n]
    obtain w' u where "decodeAndSave d p n w = (Return (), w')"
      "console w' = console w @ ws
               @ [(ERROR, ''Error decoding/saving '' @ n @ '' (path: '' @ path_string p @ ''):'',
                   ExtraError (FsError (WriteFile p (Bytes (Buffer_from_base64 b))))),
                  (ERROR, ''Problematic base64 data (first 50 chars): '' @ take 50 b @ ''...'',
                   NoExtra)]"
      by blast
    then show ?thesis
      using False skip by (auto simp: new_lines_def)
  qed
qed

theorem decodeAndSave_error_only_from_write_witness:
  "stripDataUrlPrefixAndGetBase64 (Some ''data:audio/wav;base64,Ukl!G'') = (Some ''Ukl!G'', [])
   \<and> unbase64 CHR ''!'' = None
   \<and> write_succeeds (''out'', ''demucs_bass.wav'') (empty_world\<lparr>dirs := {''out''}\<rparr>)
   \<and> fst (decodeAndSave (Some ''data:audio/wav;base64,Ukl!G'') (''out'', ''demucs_bass.wav'')
             ''demucs_bass.wav'' (empty_world\<lparr>dirs := {''out''}\<rparr>)) = Return ()
   \<and> \<not> (\<exists>l \<in> set (new_lines (empty_world\<lparr>dirs := {''out''}\<rparr>)
                       (snd (decodeAndSave (Some ''data:audio/wav;base64,Ukl!G'')
                               (''out'', ''demucs_bass.wav'') ''demucs_bass.wav''
                               (empty_world\<lparr>dirs := {''out''}\<rparr>)))). fst l = ERROR)
   \<and> files (snd (decodeAndSave (Some ''data:audio/wav;base64,Ukl!G'')
                    (''out'', ''demucs_bass.wav'') ''demucs_bass.wav''
                    (empty_world\<lparr>dirs := {''out''}\<rparr>))) (''out'', ''demucs_bass.wav'')
       = Some (Bytes [0x52, 0x49, 0x46])
   \<and> Buffer_from_base64 (''Ukl'' @ CHR ''!'' # ''G'') = Buffer_from_base64 (''Ukl'' @ ''G'')
   \<and> \<not> write_succeeds (''out'', ''demucs_bass.wav'') empty_world
   \<and> (\<exists>l \<in> set (new_lines empty_world
                      (snd (decodeAndSave (Some ''data:audio/wav;base64,Ukl!G'')
                              (''out'', ''demucs_bass.wav'') ''demucs_bass.wav'' empty_world))).
          fst l = ERROR)"
proof -
  have nw: "\<not> write_succeeds (''out'', ''demucs_bass.wav'') empty_world"
    by (simp add: write_succeeds_def empty_world_def)
  have s: "stripDataUrlPrefixAndGetBase64 (Some ''data:audio/wav;base64,Ukl!G'') = (Some ''Ukl!G'', [])"
    using strip_of_data_url [of "''audio/wav''" "''Ukl!G''"] by (simp add: data_url_def)
  have t: "js_trim ''Ukl!G'' \<noteq> []"
    by (simp add: js_trim_Nil_iff js_whitespace_def)
  have u: "unbase64 CHR ''!'' = None"
    by (simp add: unbase64_def)
  have ws: "write_succeeds (''out'', ''demucs_bass.wav'') (empty_world\<lparr>dirs := {''out''}\<rparr>)"
    by (simp add: write_succeeds_def empty_world_def)
  have b: "Buffer_from_base64 ''Ukl!G'' = [0x52, 0x49, 0x46]"
    by code_simp
  show ?thesis
    using decodeAndSave_error_only_from_write [OF s _ t,
        of "(''out'', ''demucs_bass.wav'')" "''demucs_bass.wav''" "empty_world\<lparr>dirs := {''out''}\<rparr>"
           "CHR ''!''" "''Ukl''" "''G''"]
      decodeAndSave_error_only_from_write [OF s _ t,
        of "(''out'', ''demucs_bass.wav'')" "''demucs_bass.wav''" empty_world]
      s u ws b nw
    by simp
qed

text \<open>
  C8. When the write of a binary artifact fails (the decoder itself never does), the catch
  block prints the error and then the first 50 code units of the base64 string, calls
  \<^verbatim>\<open>unlink\<close> on the destination next, and returns whether or not that call succeeds;
  if it succeeds, no file is left at the destination.
\<close>

theorem decodeAndSave_failure_is_logged_and_cleaned:
  assumes "stripDataUrlPrefixAndGetBase64 d = (Some b, ws)" and "b \<noteq> []" and "js_trim b \<noteq> []"
    and "\<not> write_succeeds p w"
  shows "fst (decodeAndSave d p n w) = Return ()
    \<and> new_lines w (snd (decodeAndSave d p n w)) =
        ws @ [(ERROR, ''Error decoding/saving '' @ n @ '' (path: '' @ path_string p @ ''):'',
               ExtraError (FsError (WriteFile p (Bytes (Buffer_from_base64 b))))),
              (ERROR, ''Problematic base64 data (first 50 chars): '' @ take 50 b @ ''...'',
               NoExtra)]
    \<and> (\<exists>u. new_calls w (snd (decodeAndSave d p n w)) =
              [(WriteFile p (Bytes (Buffer_from_base64 b)), False), (Unlink p, u)]
            \<and> (u \<longrightarrow> files (snd (decodeAndSave d p n w)) p = None))"
  using decodeAndSave_cleans_up [OF assms, of n]
  by (auto simp: new_lines_def new_calls_def)

theorem decodeAndSave_failure_is_logged_and_cleaned_witness:
  "stripDataUrlPrefixAndGetBase64 (Some ''data:audio/wav;base64,UklG'') = (Some ''UklG'', [])
   \<and> \<not> write_succeeds (''out'', ''demucs_bass.wav'')
          (empty_world\<lparr>dirs := {''out''}, faults := [FailsAfter 2, Succeeds]\<rparr>)
   \<and> fst (decodeAndSave (Some ''data:audio/wav;base64,UklG'') (''out'', ''demucs_bass.wav'')
             ''demucs_bass.wav''
             (empty_world\<lparr>dirs := {''out''}, faults := [FailsAfter 2, Succeeds]\<rparr>)) = Return ()
   \<and> new_lines (empty_world\<lparr>dirs := {''out''}, faults := [FailsAfter 2, Succeeds]\<rparr>)
        (snd (decodeAndSave (Some ''data:audio/wav;base64,UklG'') (''out'', ''demucs_bass.wav'')
                ''demucs_bass.wav''
                (empty_world\<lparr>dirs := {''out''}, faults := [FailsAfter 2, Succeeds]\<rparr>)))
       = [(ERROR, ''Error decoding/saving demucs_bass.wav (path: out/demucs_bass.wav):'',
           ExtraError (FsError (WriteFile (''out'', ''demucs_bass.wav'') (Bytes [0x52, 0x49, 0x46])))),
          (ERROR, ''Problematic base64 data (first 50 chars): UklG...'', NoExtra)]
   \<and> new_calls (empty_world\<lparr>dirs := {''out''}, faults := [FailsAfter 2, Succeeds]\<rparr>)
        (snd (decodeAndSave (Some ''data:audio/wav;base64,UklG'') (''out'', ''demucs_bass.wav'')
                ''demucs_bass.wav''
                (empty_world\<lparr>dirs := {''out''}, faults := [FailsAfter 2, Succeeds]\<rparr>)))
       = [(WriteFile (''out'', ''demucs_bass.wav'') (Bytes [0x52, 0x49, 0x46]), False),
          (Unlink (''out'', ''demucs_bass.wav''), True)]
   \<and> files (snd (decodeAndSave (Some ''data:audio/wav;base64,UklG'') (''out'', ''demucs_bass.wav'')
                ''demucs_bass.wav''
                (empty_world\<lparr>dirs := {''out''}, faults := [FailsAfter 2, Succeeds]\<rparr>)))
       (''out'', ''demucs_bass.wav'') = None"
proof -
  let ?w = "empty_world\<lparr>dirs := {''out''}, faults := [FailsAfter 2, Succeeds]\<rparr>"
  let ?p = "(''out'', ''demucs_bass.wav'')"
  have s: "stripDataUrlPrefixAndGetBase64 (Some ''data:audio/wav;base64,UklG'') = (Some ''UklG'', [])"
    using strip_of_data_url [of "''audio/wav''" "''UklG''"] by (simp add: data_url_def)
  have t: "js_trim ''UklG'' \<noteq> []"
    by (simp add: js_trim_Nil_iff js_whitespace_def)
  have nw: "\<not> write_succeeds ?p ?w"
    by (simp add: write_succeeds_def empty_world_def)
  have b: "Buffer_from_base64 ''UklG'' = [0x52, 0x49, 0x46]"
    by code_simp
  have c: "new_calls ?w (snd (decodeAndSave (Some ''data:audio/wav;base64,UklG'') ?p
                ''demucs_bass.wav'' ?w))
       = [(WriteFile ?p (Bytes [0x52, 0x49, 0x46]), False), (Unlink ?p, True)]"
    unfolding decodeAndSave_reaches_try [OF s _ t, simplified] b
    by (simp add: try_catch_def and_then_def fs_writeFile_def fs_unlink_def next_outcome_def
          called_def empty_world_def console_error_def console_print_def new_calls_def)
  show ?thesis
    using decodeAndSave_failure_is_logged_and_cleaned [OF s _ t nw, of "''demucs_bass.wav''"] s nw b c
    by (auto simp: path_string_def)
qed

section \<open>The requester\<close>

text \<open>
  C5. \<^verbatim>\<open>fetchMusicAnalysis\<close> never rejects. A rejected \<^verbatim>\<open>fetch\<close>, a response that is
  not \<^verbatim>\<open>ok\<close> (after its body was read as text, and printed), a body that is not JSON and
  a body that is \<^verbatim>\<open>null\<close> all give \<^verbatim>\<open>null\<close>; only a parsed response is returned.
\<close>

theorem fetchMusicAnalysis_never_rejects:
  fixes fetch url v s w
  defines "res \<equiv> fetchMusicAnalysis fetch url v s w"
    and "answer \<equiv> fetch API_URL \<lparr>music_input = url, input_visualize = v, input_sonify = s\<rparr>"
    and "first \<equiv> (LOG, ''Fetching analysis for: '' @ url, NoExtra)"
  shows "(\<exists>r. fst res = Return r)
    \<and> (answer = Inl e \<longrightarrow>
          fst res = Return None
          \<and> new_lines w (snd res)
              = [first, (ERROR, ''Error fetching music analysis:'', ExtraError e)])
    \<and> (answer = Inr response \<and> \<not> ok response \<and> body_text response = Inr errorBody \<longrightarrow>
          fst res = Return None
          \<and> new_lines w (snd res)
              = [first,
                 (ERROR,
                  ''API request failed: '' @ string_of_nat (status_code response) @ '' ''
                    @ statusText response,
                  ExtraString errorBody)])
    \<and> (answer = Inr response \<and> \<not> ok response \<and> body_text response = Inl e \<longrightarrow>
          fst res = Return None
          \<and> new_lines w (snd res)
              = [first, (ERROR, ''Error fetching music analysis:'', ExtraError e)])
    \<and> (answer = Inr response \<and> ok response \<and> body_json response = Inl e \<longrightarrow>
          fst res = Return None
          \<and> new_lines w (snd res)
              = [first, (ERROR, ''Error fetching music analysis:'', ExtraError e)])
    \<and> (answer = Inr response \<and> ok response \<and> body_json response = Inr None \<longrightarrow>
          fst res = Return None)
    \<and> (answer = Inr response \<and> ok response \<and> body_json response = Inr (Some data) \<longrightarrow>
          fst res = Return (Some data))
    \<and> dirs (snd res) = dirs w \<and> files (snd res) = files w \<and> calls (snd res) = calls w"
  unfolding res_def answer_def first_def
  by (auto simp: fetchMusicAnalysis_def Let_def try_catch_def console_log_def console_warn_def
        console_error_def console_print_def new_lines_def
      split: sum.splits option.splits)

text \<open>
  Four runs: the network fails; the API answers 500 with the body
  \<^verbatim>\<open>internal error\<close>; the API answers 200 with a body that is not JSON; the API answers
  200 with a response whose status is \<^verbatim>\<open>failed\<close>, which is returned all the same.
\<close>

theorem fetchMusicAnalysis_never_rejects_witness:
  "fst (fetchMusicAnalysis (\<lambda>_ _. Inl (FetchError ''ECONNREFUSED''))
          ''https://example.org/a.mp3'' True True empty_world) = Return None
   \<and> new_lines empty_world
        (snd (fetchMusicAnalysis (\<lambda>_ _. Inl (FetchError ''ECONNREFUSED''))
                ''https://example.org/a.mp3'' True True empty_world))
       = [(LOG, ''Fetching analysis for: https://example.org/a.mp3'', NoExtra),
          (ERROR, ''Error fetching music analysis:'', ExtraError (FetchError ''ECONNREFUSED''))]
   \<and> fst (fetchMusicAnalysis
          (\<lambda>_ _. Inr \<lparr>ok = False, status_code = 500, statusText = ''Internal Server Error'',
                      body_text = Inr ''internal error'', body_json = Inl SyntaxError\<rparr>)
          ''https://example.org/a.mp3'' True True empty_world) = Return None
   \<and> new_lines empty_world
        (snd (fetchMusicAnalysis
                (\<lambda>_ _. Inr \<lparr>ok = False, status_code = 500, statusText = ''Internal Server Error'',
                            body_text = Inr ''internal error'', body_json = Inl SyntaxError\<rparr>)
                ''https://example.org/a.mp3'' True True empty_world))
       = [(LOG, ''Fetching analysis for: https://example.org/a.mp3'', NoExtra),
          (ERROR, ''API request failed: 500 Internal Server Error'', ExtraString ''internal error'')]
   \<and> fst (fetchMusicAnalysis
          (\<lambda>_ _. Inr \<lparr>ok = True, status_code = 200, statusText = ''OK'',
                      body_text = Inr ''<html>'', body_json = Inl SyntaxError\<rparr>)
          ''https://example.org/a.mp3'' True True empty_world) = Return None
   \<and> fst (fetchMusicAnalysis
          (\<lambda>_ _. Inr \<lparr>ok = True, status_code = 200, statusText = ''OK'',
                      body_text = Inr [],
                      body_json = Inr (Some ((response_with (Some sample_output))
                                               \<lparr>status := Some ''failed''\<rparr>))\<rparr>)
          ''https://example.org/a.mp3'' True True empty_world)
       = Return (Some ((response_with (Some sample_output))\<lparr>status := Some ''failed''\<rparr>))"
proof -
  have n: "string_of_nat 500 = ''500''"
    by code_simp
  show ?thesis
    using fetchMusicAnalysis_never_rejects
      [of "\<lambda>_ _. Inl (FetchError ''ECONNREFUSED'')"
          "''https://example.org/a.mp3''" True True empty_world "FetchError ''ECONNREFUSED''"]
      fetchMusicAnalysis_never_rejects
      [of "\<lambda>_ _. Inr \<lparr>ok = False, status_code = 500, statusText = ''Internal Server Error'',
                      body_text = Inr ''internal error'', body_json = Inl SyntaxError\<rparr>"
          "''https://example.org/a.mp3''" True True empty_world
          _ "\<lparr>ok = False, status_code = 500, statusText = ''Internal Server Error'',
                      body_text = Inr ''internal error'', body_json = Inl SyntaxError\<rparr>"
          "''internal error''"]
      fetchMusicAnalysis_never_rejects
      [of "\<lambda>_ _. Inr \<lparr>ok = True, status_code = 200, statusText = ''OK'',
                      body_text = Inr ''<html>'', body_json = Inl SyntaxError\<rparr>"
          "''https://example.org/a.mp3''" True True empty_world
          SyntaxError "\<lparr>ok = True, status_code = 200, statusText = ''OK'',
                      body_text = Inr ''<html>'', body_json = Inl SyntaxError\<rparr>"]
      fetchMusicAnalysis_never_rejects
      [of "\<lambda>_ _. Inr \<lparr>ok = True, status_code = 200, statusText = ''OK'',
                      body_text = Inr [],
                      body_json = Inr (Some ((response_with (Some sample_output))
                                               \<lparr>status := Some ''failed''\<rparr>))\<rparr>"
          "''https://example.org/a.mp3''" True True empty_world
          _ "\<lparr>ok = True, status_code = 200, statusText = ''OK'',
                      body_text = Inr [],
                      body_json = Inr (Some ((response_with (Some sample_output))
                                               \<lparr>status := Some ''failed''\<rparr>))\<rparr>"
          _ "(response_with (Some sample_output))\<lparr>status := Some ''failed''\<rparr>"]
      n
    by simp
qed

section \<open>The persister\<close>

text \<open>
  C9. When the response carries no output bundle, \<^verbatim>\<open>processAnalysisResults\<close> prints the
  error (and the API error, when there is one) and returns: no file-system call is made, so
  no directory is created and no file is written.
\<close>

theorem no_output_no_persistence:
  assumes "api_output r = None"
  shows "fst (processAnalysisResults rt r dir w) = Return ()
    \<and> calls (snd (processAnalysisResults rt r dir w)) = calls w
    \<and> dirs (snd (processAnalysisResults rt r dir w)) = dirs w
    \<and> files (snd (processAnalysisResults rt r dir w)) = files w
    \<and> faults (snd (processAnalysisResults rt r dir w)) = faults w
    \<and> new_lines w (snd (processAnalysisResults rt r dir w))
        = (ERROR, ''No '' @ dquote @ ''output'' @ dquote @ '' data found. Cannot process.'', NoExtra)
          # (case error r of
               None \<Rightarrow> []
             | Some err \<Rightarrow> if err = [] then [] else [(ERROR, ''API Error was: '' @ err, NoExtra)])"
  using assms
  by (auto simp: processAnalysisResults_def Let_def console_error_def console_print_def
        new_lines_def split: option.splits)

theorem no_output_no_persistence_witness:
  "api_output ((response_with None)\<lparr>status := Some ''failed'', error := Some ''model crashed''\<rparr>) = None
   \<and> fst (processAnalysisResults literal_runtime
            ((response_with None)\<lparr>status := Some ''failed'', error := Some ''model crashed''\<rparr>)
            OUTPUT_DIRECTORY empty_world) = Return ()
   \<and> calls (snd (processAnalysisResults literal_runtime
            ((response_with None)\<lparr>status := Some ''failed'', error := Some ''model crashed''\<rparr>)
            OUTPUT_DIRECTORY empty_world)) = []
   \<and> dirs (snd (processAnalysisResults literal_runtime
            ((response_with None)\<lparr>status := Some ''failed'', error := Some ''model crashed''\<rparr>)
            OUTPUT_DIRECTORY empty_world)) = {}
   \<and> new_lines empty_world (snd (processAnalysisResults literal_runtime
            ((response_with None)\<lparr>status := Some ''failed'', error := Some ''model crashed''\<rparr>)
            OUTPUT_DIRECTORY empty_world))
       = [(ERROR, ''No '' @ dquote @ ''output'' @ dquote @ '' data found. Cannot process.'', NoExtra),
          (ERROR, ''API Error was: model crashed'', NoExtra)]"
  using no_output_no_persistence
    [of "(response_with None)\<lparr>status := Some ''failed'', error := Some ''model crashed''\<rparr>"
        literal_runtime OUTPUT_DIRECTORY empty_world]
  by (simp add: response_with_def empty_world_def)

lemma fs_mkdir_succeeds:
  "faults w = [] \<Longrightarrow>
   fs_mkdir dir w =
     (Return (), w\<lparr>dirs := insert dir (dirs w), calls := calls w @ [(Mkdir dir, True)]\<rparr>)"
  by (simp add: fs_mkdir_def next_outcome_def called_def)

lemma fs_mkdir_cases:
  "(\<exists>w'. fs_mkdir dir w = (Return (), w') \<and> console w' = console w)
   \<or> (\<exists>w'. fs_mkdir dir w = (Throw (FsError (Mkdir dir)), w')
          \<and> new_calls w w' = [(Mkdir dir, False)])"
  by (cases "faults w")
     (auto simp: fs_mkdir_def next_outcome_def called_def new_calls_def)

lemma write_succeeds_no_faults: "faults w = [] \<Longrightarrow> write_succeeds p w \<longleftrightarrow> fst p \<in> dirs w"
  by (simp add: write_succeeds_def)

lemma strip_Some_truthy: "stripDataUrlPrefixAndGetBase64 d = (Some b, ws) \<Longrightarrow> truthy d"
  by (auto simp: stripDataUrlPrefixAndGetBase64_def truthy_def split: option.splits if_splits)

lemma truthy_data_url: "truthy (Some (data_url mime payload))"
  by (simp add: truthy_def data_url_def)

subsection \<open>The JSON field\<close>


lemma analyzer_result_block_diagnoses:
  assumes "stripDataUrlPrefixAndGetBase64 (out ''analyzer_result'') = (Some b, ws)" and "b \<noteq> []"
    and "JSON_parse rt (toString_utf8 rt (Buffer_from_base64 b)) = None"
    and "write_succeeds (path_join dir ''_error_analyzer_result_content.txt'') w"
  shows "analyzer_result_block rt out dir w =
           (Return (),
            w\<lparr>files := (files w)(path_join dir ''_error_analyzer_result_content.txt'' \<mapsto>
                 Text (''Attempted to decode this as JSON (from base64):'' @ newline @ newline
                         @ toString_utf8 rt (Buffer_from_base64 b))),
              console := console w @ ws
                 @ [(ERROR, ''Error processing analyzer_result for analysis.json:'',
                     ExtraError SyntaxError),
                    (ERROR, ''Problematic base64 for JSON (first 50 chars): '' @ take 50 b @ ''...'',
                     NoExtra),
                    (ERROR, ''Saved problematic decoded content (or base64) to ''
                              @ path_string (path_join dir ''_error_analyzer_result_content.txt''),
                     NoExtra)],
              calls := calls w
                 @ [(WriteFile (path_join dir ''_error_analyzer_result_content.txt'')
                       (Text (''Attempted to decode this as JSON (from base64):'' @ newline
                                @ newline @ toString_utf8 rt (Buffer_from_base64 b))), True)],
              faults := tl (faults w)\<rparr>)"
proof -
  have "write_succeeds (path_join dir ''_error_analyzer_result_content.txt'')
          (w\<lparr>console := console w @ ws
                 @ [(ERROR, ''Error processing analyzer_result for analysis.json:'',
                     ExtraError SyntaxError),
                    (ERROR, ''Problematic base64 for JSON (first 50 chars): '' @ take 50 b @ ''...'',
                     NoExtra)]\<rparr>)"
    using assms(4) by simp
  then show ?thesis
    using assms(1-3) strip_Some_truthy [OF assms(1)]
    by (simp add: analyzer_result_block_def Let_def try_catch_def and_then_def
          fs_writeFile_succeeds console_error_def console_print_def)
qed

text \<open>
  The block throws only out of its last resort, the second attempt to write the diagnostic
  file.
\<close>

lemma analyzer_result_block_throws:
  assumes "analyzer_result_block rt out dir w = (Throw e, w')"
  shows "\<exists>c. e = FsError (WriteFile (path_join dir ''_error_analyzer_result_content.txt'') c)
           \<and> calls w' \<noteq> []
           \<and> last (calls w') = (WriteFile (path_join dir ''_error_analyzer_result_content.txt'') c, False)"
proof (cases "stripDataUrlPrefixAndGetBase64 (out ''analyzer_result'')")
  case (Pair r ws)
  let ?err = "path_join dir ''_error_analyzer_result_content.txt''"
  have second: "\<And>c w1 e1 w2. fs_writeFile ?err c w1 = (Throw e1, w2) \<Longrightarrow>
      e1 = FsError (WriteFile ?err c) \<and> calls w2 \<noteq> [] \<and> last (calls w2) = (WriteFile ?err c, False)"
  proof -
    fix c w1 e1 w2
    assume a: "fs_writeFile ?err c w1 = (Throw e1, w2)"
    then have "\<not> write_succeeds ?err w1"
      using fs_writeFile_succeeds [of ?err w1 c] by auto
    from fs_writeFile_fails [OF this, of c] a
    show "e1 = FsError (WriteFile ?err c) \<and> calls w2 \<noteq> [] \<and> last (calls w2) = (WriteFile ?err c, False)"
      by auto
  qed
  show ?thesis
    using assms Pair
    by (auto simp: analyzer_result_block_def Let_def try_catch_def and_then_def
          console_error_def console_warn_def console_log_def console_print_def
        split: if_splits option.splits prod.splits result.splits
        dest!: second)
qed

subsection \<open>The binary fields\<close>

lemma visualization_block_returns: "fst (visualization_block out dir w) = Return ()"
  by (simp add: visualization_block_def decodeAndSave_returns)

lemma audio_loop_returns: "fst (audio_loop out dir ks w) = Return ()"
proof (induction ks arbitrary: w)
  case Nil
  then show ?case by simp
next
  case (Cons k ks)
  obtain w1 where "decodeAndSave (out k)
      (path_join dir (k @ (if k = ''sonification'' then ''.mp3'' else ''.wav'')))
      (k @ (if k = ''sonification'' then ''.mp3'' else ''.wav'')) w = (Return (), w1)"
    using decodeAndSave_returns
      [of "out k" "path_join dir (k @ (if k = ''sonification'' then ''.mp3'' else ''.wav''))"
          "k @ (if k = ''sonification'' then ''.mp3'' else ''.wav'')" w]
    by (metis prod.collapse)
  then show ?case
    using Cons.IH by (simp add: Let_def and_then_def)
qed

text \<open>A field that holds the data URL of a non-empty byte sequence is saved as those bytes.\<close>

lemma decodeAndSave_data_url:
  assumes "CHR '','' \<notin> set mime" and "bs \<noteq> []" and "fst p \<in> dirs w" and "faults w = []"
  shows "decodeAndSave (Some (data_url mime (base64_encode bs))) p n w =
           (Return (),
            w\<lparr>files := (files w)(p \<mapsto> Bytes bs),
              console := console w
                 @ [(LOG, ''Successfully saved '' @ n @ '' to '' @ path_string p, NoExtra)],
              calls := calls w @ [(WriteFile p (Bytes bs), True)]\<rparr>)"
  using decodeAndSave_saves
    [OF strip_of_data_url [OF assms(1)] base64_encode_not_Nil [OF assms(2)]
        base64_encode_not_blank [OF assms(2)], of p w n]
    assms(3,4)
  by (simp add: write_succeeds_no_faults Buffer_from_base64_encode)

lemma audio_loop_saves:
  assumes "\<forall>k \<in> set ks. out k = Some (data_url (mime k) (base64_encode (bytes k)))
             \<and> CHR '','' \<notin> set (mime k) \<and> bytes k \<noteq> []"
    and "dir \<in> dirs w" and "faults w = []"
  shows "\<exists>w'. audio_loop out dir ks w = (Return (), w')
           \<and> dirs w' = dirs w \<and> faults w' = []
           \<and> calls w' = calls w
               @ map (\<lambda>k. (WriteFile
                             (path_join dir (k @ (if k = ''sonification'' then ''.mp3'' else ''.wav'')))
                             (Bytes (bytes k)), True)) ks
           \<and> files w' =
               fold (\<lambda>k f. f(path_join dir (k @ (if k = ''sonification'' then ''.mp3'' else ''.wav''))
                               \<mapsto> Bytes (bytes k))) ks (files w)"
  using assms
proof (induction ks arbitrary: w)
  case Nil
  then show ?case by simp
next
  case (Cons k ks)
  let ?n = "k @ (if k = ''sonification'' then ''.mp3'' else ''.wav'')"
  let ?p = "path_join dir ?n"
  let ?w1 = "w\<lparr>files := (files w)(?p \<mapsto> Bytes (bytes k)),
               console := console w
                 @ [(LOG, ''Successfully saved '' @ ?n @ '' to '' @ path_string ?p, NoExtra)],
               calls := calls w @ [(WriteFile ?p (Bytes (bytes k)), True)]\<rparr>"
  have k: "out k = Some (data_url (mime k) (base64_encode (bytes k)))"
    "CHR '','' \<notin> set (mime k)" "bytes k \<noteq> []"
    using Cons.prems(1) by auto
  have "fst ?p \<in> dirs w" using Cons.prems(2) by (simp add: path_join_def)
  then have step: "decodeAndSave (out k) ?p ?n w = (Return (), ?w1)"
    unfolding k(1) using decodeAndSave_data_url [OF k(2,3) _ Cons.prems(3)] by simp
  have "\<forall>k \<in> set ks. out k = Some (data_url (mime k) (base64_encode (bytes k)))
             \<and> CHR '','' \<notin> set (mime k) \<and> bytes k \<noteq> []"
    using Cons.prems(1) by simp
  moreover have "dir \<in> dirs ?w1" "faults ?w1 = []"
    using Cons.prems(2,3) by simp_all
  ultimately obtain w' where w': "audio_loop out dir ks ?w1 = (Return (), w')"
    "dirs w' = dirs ?w1" "faults w' = []"
    "calls w' = calls ?w1
               @ map (\<lambda>k. (WriteFile
                             (path_join dir (k @ (if k = ''sonification'' then ''.mp3'' else ''.wav'')))
                             (Bytes (bytes k)), True)) ks"
    "files w' =
               fold (\<lambda>k f. f(path_join dir (k @ (if k = ''sonification'' then ''.mp3'' else ''.wav''))
                               \<mapsto> Bytes (bytes k))) ks (files ?w1)"
    using Cons.IH [of ?w1] by blast
  have loop: "audio_loop out dir (k # ks) w = (Return (), w')"
    using step w'(1) k(1) by (simp add: Let_def and_then_def truthy_data_url)
  show ?case
  proof (intro exI [of _ w'] conjI)
    show "audio_loop out dir (k # ks) w = (Return (), w')" by (rule loop)
    show "dirs w' = dirs w" using w'(2) by simp
    show "faults w' = []" by (rule w'(3))
    show "calls w' = calls w
               @ map (\<lambda>k. (WriteFile
                             (path_join dir (k @ (if k = ''sonification'' then ''.mp3'' else ''.wav'')))
                             (Bytes (bytes k)), True)) (k # ks)"
      using w'(4) by (simp split del: if_split cong: if_cong)
    show "files w' =
               fold (\<lambda>k f. f(path_join dir (k @ (if k = ''sonification'' then ''.mp3'' else ''.wav''))
                               \<mapsto> Bytes (bytes k))) (k # ks) (files w)"
      using w'(5) by (simp split del: if_split cong: if_cong)
  qed
qed

lemma binary_fields_saved:
  assumes "\<forall>k \<in> set (''visualization'' # audioFileKeys).
             out k = Some (data_url (mime k) (base64_encode (bytes k)))
             \<and> CHR '','' \<notin> set (mime k) \<and> bytes k \<noteq> []"
    and "dir \<in> dirs w" and "faults w = []"
  shows "\<exists>w'. and_then (visualization_block out dir)
                (\<lambda>_ w. and_then (audio_loop out dir audioFileKeys)
                          (\<lambda>_ w. (Return (),
                                   console_log ''--- Finished processing all output fields ---'' w))
                          (console_log (newline @ ''--- Processing Audio Files ---'') w)) w
              = (Return (), w')
           \<and> dirs w' = dirs w
           \<and> calls w' = calls w
               @ (WriteFile (path_join dir ''visualization.png'') (Bytes (bytes ''visualization'')), True)
               # map (\<lambda>k. (WriteFile
                             (path_join dir (k @ (if k = ''sonification'' then ''.mp3'' else ''.wav'')))
                             (Bytes (bytes k)), True)) audioFileKeys
           \<and> files w' =
               fold (\<lambda>k f. f(path_join dir (k @ (if k = ''sonification'' then ''.mp3'' else ''.wav''))
                               \<mapsto> Bytes (bytes k))) audioFileKeys
                 ((files w)(path_join dir ''visualization.png'' \<mapsto> Bytes (bytes ''visualization'')))"
proof -
  let ?p = "path_join dir ''visualization.png''"
  let ?w1 = "w\<lparr>files := (files w)(?p \<mapsto> Bytes (bytes ''visualization'')),
               console := console w
                 @ [(LOG, ''Successfully saved visualization.png to '' @ path_string ?p, NoExtra)],
               calls := calls w @ [(WriteFile ?p (Bytes (bytes ''visualization'')), True)]\<rparr>"
  let ?w2 = "console_log (newline @ ''--- Processing Audio Files ---'') ?w1"
  have v: "out ''visualization''
             = Some (data_url (mime ''visualization'') (base64_encode (bytes ''visualization'')))"
    "CHR '','' \<notin> set (mime ''visualization'')" "bytes ''visualization'' \<noteq> []"
    using assms(1) by auto
  have "fst ?p \<in> dirs w" using assms(2) by (simp add: path_join_def)
  then have vis: "visualization_block out dir w = (Return (), ?w1)"
    using decodeAndSave_data_url [OF v(2,3) _ assms(3), of ?p "''visualization.png''"]
    by (simp add: visualization_block_def v(1) truthy_data_url)
  have "\<forall>k \<in> set audioFileKeys. out k = Some (data_url (mime k) (base64_encode (bytes k)))
             \<and> CHR '','' \<notin> set (mime k) \<and> bytes k \<noteq> []"
    using assms(1) by simp
  moreover have "dir \<in> dirs ?w2" "faults ?w2 = []"
    using assms(2,3) by (simp_all add: console_log_def console_print_def)
  ultimately obtain w3 where w3: "audio_loop out dir audioFileKeys ?w2 = (Return (), w3)"
    "dirs w3 = dirs ?w2" "faults w3 = []"
    "calls w3 = calls ?w2
               @ map (\<lambda>k. (WriteFile
                             (path_join dir (k @ (if k = ''sonification'' then ''.mp3'' else ''.wav'')))
                             (Bytes (bytes k)), True)) audioFileKeys"
    "files w3 =
               fold (\<lambda>k f. f(path_join dir (k @ (if k = ''sonification'' then ''.mp3'' else ''.wav''))
                               \<mapsto> Bytes (bytes k))) audioFileKeys (files ?w2)"
    using audio_loop_saves [of audioFileKeys out mime bytes dir ?w2] by blast
  show ?thesis
  proof (intro exI [of _ "console_log ''--- Finished processing all output fields ---'' w3"] conjI)
    show "and_then (visualization_block out dir)
                (\<lambda>_ w. and_then (audio_loop out dir audioFileKeys)
                          (\<lambda>_ w. (Return (),
                                   console_log ''--- Finished processing all output fields ---'' w))
                          (console_log (newline @ ''--- Processing Audio Files ---'') w)) w
              = (Return (), console_log ''--- Finished processing all output fields ---'' w3)"
      by (simp only: and_then_def vis w3(1) prod.case result.case)
    show "dirs (console_log ''--- Finished processing all output fields ---'' w3) = dirs w"
      using w3(2) by (simp add: console_log_def console_print_def)
    show "calls (console_log ''--- Finished processing all output fields ---'' w3) = calls w
               @ (WriteFile (path_join dir ''visualization.png'') (Bytes (bytes ''visualization'')), True)
               # map (\<lambda>k. (WriteFile
                             (path_join dir (k @ (if k = ''sonification'' then ''.mp3'' else ''.wav'')))
                             (Bytes (bytes k)), True)) audioFileKeys"
      using w3(4) by (simp add: console_log_def console_print_def)
    show "files (console_log ''--- Finished processing all output fields ---'' w3) =
               fold (\<lambda>k f. f(path_join dir (k @ (if k = ''sonification'' then ''.mp3'' else ''.wav''))
                               \<mapsto> Bytes (bytes k))) audioFileKeys
                 ((files w)(path_join dir ''visualization.png'' \<mapsto> Bytes (bytes ''visualization'')))"
      using w3(5) by (simp add: console_log_def console_print_def)
  qed
qed

lemma and_then_Return: "m w = (Return v, w1) \<Longrightarrow> and_then m f w = f v w1"
  by (simp add: and_then_def)

lemma and_then_Throw: "m w = (Throw e, w1) \<Longrightarrow> and_then m f w = (Throw e, w1)"
  by (simp add: and_then_def)

lemma processAnalysisResults_with_output:
  assumes "api_output r = Some out" and "faults w = []"
  shows "processAnalysisResults rt r dir w =
           and_then (analyzer_result_block rt out dir)
             (\<lambda>_. and_then (visualization_block out dir)
                (\<lambda>_ w. and_then (audio_loop out dir audioFileKeys)
                          (\<lambda>_ w. (Return (),
                                   console_log ''--- Finished processing all output fields ---'' w))
                          (console_log (newline @ ''--- Processing Audio Files ---'') w)))
             (w\<lparr>dirs := insert dir (dirs w), calls := calls w @ [(Mkdir dir, True)],
                console := console w
                  @ [(LOG, ''Ensured output directory exists: '' @ dir, NoExtra)]\<rparr>)"
  using assms
  by (simp add: processAnalysisResults_def and_then_def fs_mkdir_succeeds console_log_def
        console_print_def)

subsection \<open>A bundle with every field valid\<close>




lemma is_base64_iff: "is_base64 s \<longleftrightarrow> (\<exists>bs. s = base64_encode bs)"
proof
  assume "is_base64 s"
  then have "s = base64_encode (Buffer_from_base64 s)" by (simp add: is_base64_def)
  then show "\<exists>bs. s = base64_encode bs" ..
next
  assume "\<exists>bs. s = base64_encode bs"
  then show "is_base64 s" by (auto simp: is_base64_def Buffer_from_base64_encode)
qed

lemma not_base64_not_Nil: "\<not> is_base64 b \<Longrightarrow> b \<noteq> []"
  by (auto simp: is_base64_def Buffer_from_base64_def)


subsection \<open>A malformed JSON field\<close>

text \<open>
  C4, as stated, fails: the runtime's decoder skips what is not base64, so a payload that is
  not base64 can still decode to JSON text; \<^verbatim>\<open>analysis.json\<close> is written then, and no
  diagnostic file. Also, a data URL may carry no bytes, and such a field gives no file;
  and a write that the file system refuses leaves its artifact out.
\<close>

theorem lenient_decoding_saves_analysis_json:
  "lenient_output ''analyzer_result'' = Some ''data:application/json;base64,bnVs!bA==''
   \<and> unbase64 CHR ''!'' = None
   \<and> \<not> is_base64 ''bnVs!bA==''
   \<and> files (snd (processAnalysisResults literal_runtime (response_with (Some lenient_output))
               OUTPUT_DIRECTORY empty_world)) (OUTPUT_DIRECTORY, ''analysis.json'')
       = Some (Text ''null'')
   \<and> files (snd (processAnalysisResults literal_runtime (response_with (Some lenient_output))
               OUTPUT_DIRECTORY empty_world))
         (OUTPUT_DIRECTORY, ''_error_analyzer_result_content.txt'') = None
   \<and> broken_empty_output ''sonification'' = Some (data_url ''audio/mpeg'' (base64_encode []))
   \<and> files (snd (processAnalysisResults literal_runtime (response_with (Some broken_empty_output))
               OUTPUT_DIRECTORY empty_world)) (OUTPUT_DIRECTORY, ''sonification.mp3'') = None
   \<and> files (snd (processAnalysisResults literal_runtime (response_with (Some broken_output))
               OUTPUT_DIRECTORY (empty_world\<lparr>faults := [Succeeds, Succeeds, Fails]\<rparr>)))
         (OUTPUT_DIRECTORY, ''visualization.png'') = None"
  by code_simp

text \<open>
  C4, amended. Let \<^verbatim>\<open>analyzer_result\<close> contain invalid base64 (its payload \<open>b\<close> is not
  the encoding of any bytes) whose lenient decoding is not JSON text, let the other eleven
  fields hold data URLs of non-empty byte sequences, and let no file-system call fail.
  Then \<^verbatim>\<open>processAnalysisResults\<close> returns, having written the diagnostic file with the
  decoded text and then the eleven other artifacts; it makes no write to
  \<^verbatim>\<open>analysis.json\<close>.
\<close>

theorem malformed_analyzer_result_is_isolated:
  fixes rt :: "'j runtime" and dir :: string and w :: world
  assumes "api_output r = Some out"
    and "stripDataUrlPrefixAndGetBase64 (out ''analyzer_result'') = (Some b, ws)"
    and "\<not> is_base64 b"
    and "JSON_parse rt (toString_utf8 rt (Buffer_from_base64 b)) = None"
    and "\<forall>k \<in> set (''visualization'' # audioFileKeys).
           out k = Some (data_url (mime k) (base64_encode (bytes k)))
           \<and> CHR '','' \<notin> set (mime k) \<and> bytes k \<noteq> []"
    and "faults w = []"
  defines "w' \<equiv> snd (processAnalysisResults rt r dir w)"
    and "diagnostic \<equiv> path_join dir ''_error_analyzer_result_content.txt''"
    and "report \<equiv> Text (''Attempted to decode this as JSON (from base64):'' @ newline @ newline
                           @ toString_utf8 rt (Buffer_from_base64 b))"
  shows "fst (processAnalysisResults rt r dir w) = Return ()
    \<and> new_calls w w' =
        (Mkdir dir, True) # (WriteFile diagnostic report, True)
        # map (\<lambda>k. (WriteFile (path_join dir (artifact_file k)) (Bytes (bytes k)), True))
            (''visualization'' # audioFileKeys)
    \<and> (\<forall>k \<in> set (''visualization'' # audioFileKeys).
          files w' (path_join dir (artifact_file k)) = Some (Bytes (bytes k)))
    \<and> files w' diagnostic = Some report
    \<and> files w' (path_join dir ''analysis.json'') = files w (path_join dir ''analysis.json'')"
proof -
  let ?w1 = "w\<lparr>dirs := insert dir (dirs w), calls := calls w @ [(Mkdir dir, True)],
               console := console w
                 @ [(LOG, ''Ensured output directory exists: '' @ dir, NoExtra)]\<rparr>"
  have "write_succeeds diagnostic ?w1"
    using assms(6) by (simp add: write_succeeds_def path_join_def diagnostic_def)
  from analyzer_result_block_diagnoses
    [where out = out and rt = rt and dir = dir and w = ?w1,
     OF assms(2) not_base64_not_Nil [OF assms(3)] assms(4) this [unfolded diagnostic_def]]
  obtain w2 where w2: "analyzer_result_block rt out dir ?w1 = (Return (), w2)"
    "dirs w2 = dirs ?w1" "faults w2 = []" "calls w2 = calls ?w1 @ [(WriteFile diagnostic report, True)]"
    "files w2 = (files w)(diagnostic \<mapsto> report)"
    using assms(6) by (simp add: diagnostic_def report_def)
  have "dir \<in> dirs w2" using w2(2) by simp
  from binary_fields_saved [of out mime bytes dir w2, OF assms(5) this w2(3)]
  obtain w3 where w3:
    "and_then (visualization_block out dir)
                (\<lambda>_ w. and_then (audio_loop out dir audioFileKeys)
                          (\<lambda>_ w. (Return (),
                                   console_log ''--- Finished processing all output fields ---'' w))
                          (console_log (newline @ ''--- Processing Audio Files ---'') w)) w2
              = (Return (), w3)"
    "calls w3 = calls w2
               @ (WriteFile (path_join dir ''visualization.png'') (Bytes (bytes ''visualization'')), True)
               # map (\<lambda>k. (WriteFile
                             (path_join dir (k @ (if k = ''sonification'' then ''.mp3'' else ''.wav'')))
                             (Bytes (bytes k)), True)) audioFileKeys"
    "files w3 =
               fold (\<lambda>k f. f(path_join dir (k @ (if k = ''sonification'' then ''.mp3'' else ''.wav''))
                               \<mapsto> Bytes (bytes k))) audioFileKeys
                 ((files w2)(path_join dir ''visualization.png'' \<mapsto> Bytes (bytes ''visualization'')))"
    by blast
  have run: "processAnalysisResults rt r dir w = (Return (), w3)"
    unfolding processAnalysisResults_with_output [OF assms(1,6)]
    by (simp only: and_then_Return [where m = "analyzer_result_block rt out dir", OF w2(1)] w3(1))
  have w': "w' = w3" by (simp add: w'_def run)
  show ?thesis
    unfolding w'
  proof (intro conjI)
    show "fst (processAnalysisResults rt r dir w) = Return ()" by (simp add: run)
    show "new_calls w w3 =
        (Mkdir dir, True) # (WriteFile diagnostic report, True)
        # map (\<lambda>k. (WriteFile (path_join dir (artifact_file k)) (Bytes (bytes k)), True))
            (''visualization'' # audioFileKeys)"
      by (simp add: new_calls_def w3(2) w2(4) audioFileKeys_def artifact_file_def)
    show "\<forall>k \<in> set (''visualization'' # audioFileKeys).
          files w3 (path_join dir (artifact_file k)) = Some (Bytes (bytes k))"
      by (simp add: w3(3) w2(5) audioFileKeys_def artifact_file_def path_join_def diagnostic_def)
    show "files w3 diagnostic = Some report"
      by (simp add: w3(3) w2(5) audioFileKeys_def path_join_def diagnostic_def)
    show "files w3 (path_join dir ''analysis.json'') = files w (path_join dir ''analysis.json'')"
      by (simp add: w3(3) w2(5) audioFileKeys_def path_join_def diagnostic_def)
  qed
qed

theorem malformed_analyzer_result_is_isolated_witness:
  "stripDataUrlPrefixAndGetBase64 (broken_output ''analyzer_result'') = (Some ''e!w=='', [])
   \<and> \<not> is_base64 ''e!w==''
   \<and> toString_utf8 literal_runtime (Buffer_from_base64 ''e!w=='') = ''{''
   \<and> JSON_parse literal_runtime ''{'' = None
   \<and> fst (processAnalysisResults literal_runtime (response_with (Some broken_output))
            OUTPUT_DIRECTORY empty_world) = Return ()
   \<and> map snd (written_paths (new_calls empty_world
        (snd (processAnalysisResults literal_runtime (response_with (Some broken_output))
                OUTPUT_DIRECTORY empty_world))))
       = [''_error_analyzer_result_content.txt'', ''visualization.png'', ''demucs_bass.wav'',
          ''demucs_drums.wav'', ''demucs_guitar.wav'', ''demucs_other.wav'', ''demucs_piano.wav'',
          ''demucs_vocals.wav'', ''mdx_instrumental.wav'', ''mdx_other.wav'', ''mdx_vocals.wav'',
          ''sonification.mp3'']
   \<and> files (snd (processAnalysisResults literal_runtime (response_with (Some broken_output))
                OUTPUT_DIRECTORY empty_world))
         (OUTPUT_DIRECTORY, ''_error_analyzer_result_content.txt'')
       = Some (Text (''Attempted to decode this as JSON (from base64):'' @ newline @ newline @ ''{''))
   \<and> files (snd (processAnalysisResults literal_runtime (response_with (Some broken_output))
                OUTPUT_DIRECTORY empty_world)) (OUTPUT_DIRECTORY, ''analysis.json'') = None"
proof -
  have h1: "api_output (response_with (Some broken_output)) = Some broken_output"
    by (simp add: response_with_def)
  have h2: "stripDataUrlPrefixAndGetBase64 (broken_output ''analyzer_result'') = (Some ''e!w=='', [])"
    using strip_of_data_url [of "''application/json''" "''e!w==''"]
    by (simp add: broken_output_def data_url_def)
  have d: "toString_utf8 literal_runtime (Buffer_from_base64 ''e!w=='') = ''{''"
    by code_simp
  have h4: "JSON_parse literal_runtime (toString_utf8 literal_runtime (Buffer_from_base64 ''e!w==''))
              = None"
    unfolding d by (simp add: literal_runtime_def)
  have h5: "\<forall>k \<in> set (''visualization'' # audioFileKeys).
           broken_output k = Some (data_url (sample_mime k) (base64_encode (sample_bytes k)))
           \<and> CHR '','' \<notin> set (sample_mime k) \<and> sample_bytes k \<noteq> []"
    by (simp add: broken_output_def sample_output_def sample_mime_def sample_bytes_def
          catalogued_fields_def audioFileKeys_def)
  have h6: "faults empty_world = []"
    by (simp add: empty_world_def)
  have u: "\<not> is_base64 ''e!w==''"
    by code_simp
  have paths: "map snd (written_paths (new_calls empty_world
        (snd (processAnalysisResults literal_runtime (response_with (Some broken_output))
                OUTPUT_DIRECTORY empty_world))))
       = [''_error_analyzer_result_content.txt'', ''visualization.png'', ''demucs_bass.wav'',
          ''demucs_drums.wav'', ''demucs_guitar.wav'', ''demucs_other.wav'', ''demucs_piano.wav'',
          ''demucs_vocals.wav'', ''mdx_instrumental.wav'', ''mdx_other.wav'', ''mdx_vocals.wav'',
          ''sonification.mp3'']"
    by code_simp
  show ?thesis
    using malformed_analyzer_result_is_isolated
      [where rt = literal_runtime and r = "response_with (Some broken_output)"
         and out = broken_output and mime = sample_mime and bytes = sample_bytes
         and w = empty_world and dir = OUTPUT_DIRECTORY and b = "''e!w==''" and ws = "[]",
       OF h1 h2 u h4 h5 h6]
      h2 u d h4 paths
    by (simp add: path_join_def empty_world_def)
qed


subsection \<open>What a run adds, and what it leaves alone\<close>

lemma new_calls_append: "calls w' = calls w @ cs \<Longrightarrow> new_calls w w' = cs"
  by (simp add: new_calls_def)

lemma new_lines_append: "console w' = console w @ ls \<Longrightarrow> new_lines w w' = ls"
  by (simp add: new_lines_def)

lemma new_calls_mono:
  assumes "prefix (calls a) (calls b)" and "prefix (calls b) (calls c)"
    and "prefix (calls c) (calls d)"
  shows "set (new_calls b c) \<subseteq> set (new_calls a d)"
proof -
  obtain x y z where "calls b = calls a @ x" "calls c = calls b @ y" "calls d = calls c @ z"
    using assms by (auto simp: prefix_def)
  then show ?thesis by (auto simp: new_calls_def)
qed

lemma new_lines_mono:
  assumes "prefix (console a) (console b)" and "prefix (console b) (console c)"
    and "prefix (console c) (console d)"
  shows "set (new_lines b c) \<subseteq> set (new_lines a d)"
proof -
  obtain x y z where "console b = console a @ x" "console c = console b @ y"
    "console d = console c @ z"
    using assms by (auto simp: prefix_def)
  then show ?thesis by (auto simp: new_lines_def)
qed

lemma artifact_handled_mono:
  assumes "artifact_handled d p n b c"
    and "prefix (calls a) (calls b)" and "prefix (calls b) (calls c)"
    and "prefix (calls c) (calls e)"
    and "prefix (console a) (console b)" and "prefix (console b) (console c)"
    and "prefix (console c) (console e)"
    and "files e p = files c p"
  shows "artifact_handled d p n a e"
proof -
  have cs: "set (new_calls b c) \<subseteq> set (new_calls a e)"
    using assms(2-4) by (rule new_calls_mono)
  have ls: "set (new_lines b c) \<subseteq> set (new_lines a e)"
    using assms(5-7) by (rule new_lines_mono)
  show ?thesis
    using assms(1,8) cs ls
    by (auto simp: artifact_handled_def Let_def list_ex_iff split: option.splits if_splits)
qed

lemma json_handled_mono:
  assumes "json_handled rt d dir b c"
    and "prefix (calls a) (calls b)" and "prefix (calls b) (calls c)"
    and "prefix (calls c) (calls e)"
    and "prefix (console a) (console b)" and "prefix (console b) (console c)"
    and "prefix (console c) (console e)"
    and "files e (path_join dir ''analysis.json'') = files c (path_join dir ''analysis.json'')"
  shows "json_handled rt d dir a e"
proof -
  have cs: "set (new_calls b c) \<subseteq> set (new_calls a e)"
    using assms(2-4) by (rule new_calls_mono)
  have ls: "set (new_lines b c) \<subseteq> set (new_lines a e)"
    using assms(5-7) by (rule new_lines_mono)
  show ?thesis
    using assms(1,8) cs ls
    by (auto simp: json_handled_def Let_def split: option.splits if_splits)
qed

text \<open>A write and an unlink touch no file but their own.\<close>

lemma fs_writeFile_cases:
  "\<exists>r w'. fs_writeFile p d w = (r, w')
     \<and> dirs w' = dirs w \<and> console w' = console w
     \<and> (\<forall>q. q \<noteq> p \<longrightarrow> files w' q = files w q)
     \<and> ((r = Return () \<and> calls w' = calls w @ [(WriteFile p d, True)] \<and> files w' p = Some d)
         \<or> (r = Throw (FsError (WriteFile p d)) \<and> calls w' = calls w @ [(WriteFile p d, False)]))"
proof (cases "faults w")
  case Nil
  then show ?thesis
    by (auto simp: fs_writeFile_def next_outcome_def called_def)
next
  case (Cons f fs)
  then show ?thesis
    by (cases f) (auto simp: fs_writeFile_def next_outcome_def called_def)
qed

lemma fs_unlink_frame:
  "\<exists>r w' u. fs_unlink p w = (r, w')
     \<and> dirs w' = dirs w \<and> console w' = console w
     \<and> (\<forall>q. q \<noteq> p \<longrightarrow> files w' q = files w q)
     \<and> calls w' = calls w @ [(Unlink p, u)]"
  by (cases "faults w") (auto simp: fs_unlink_def next_outcome_def called_def)

text \<open>
  \<^verbatim>\<open>decodeAndSave\<close> in any world, whatever fails: it returns, adds to the calls and to the
  console, touches no file but its own, and handles its artifact.
\<close>

lemma decodeAndSave_handles:
  "\<exists>w'. decodeAndSave d p n w = (Return (), w')
     \<and> dirs w' = dirs w
     \<and> prefix (calls w) (calls w') \<and> prefix (console w) (console w')
     \<and> (\<forall>q. q \<noteq> p \<longrightarrow> files w' q = files w q)
     \<and> artifact_handled d p n w w'"
proof (cases "stripDataUrlPrefixAndGetBase64 d")
  case (Pair r ws)
  show ?thesis
  proof (cases r)
    case None
    then show ?thesis
      using Pair
      by (simp add: decodeAndSave_def artifact_handled_def console_warn_def console_print_def)
  next
    case (Some b)
    note strip = Pair [unfolded Some]
    show ?thesis
    proof (cases "b = [] \<or> js_trim b = []")
      case True
      then show ?thesis
        using strip
        by (auto simp: decodeAndSave_def artifact_handled_def console_warn_def console_print_def)
    next
      case False
      then have nb: "b \<noteq> []" "js_trim b \<noteq> []" by auto
      let ?c = "Bytes (Buffer_from_base64 b)"
      let ?w1 = "w\<lparr>console := console w @ ws\<rparr>"
      from fs_writeFile_cases [of p ?c ?w1]
      obtain r1 w2 where w2: "fs_writeFile p ?c ?w1 = (r1, w2)"
        "dirs w2 = dirs w" "console w2 = console w @ ws"
        "\<forall>q. q \<noteq> p \<longrightarrow> files w2 q = files w q"
        "(r1 = Return () \<and> calls w2 = calls w @ [(WriteFile p ?c, True)] \<and> files w2 p = Some ?c)
         \<or> (r1 = Throw (FsError (WriteFile p ?c)) \<and> calls w2 = calls w @ [(WriteFile p ?c, False)])"
        by auto
      from w2(5) show ?thesis
      proof
        assume ok: "r1 = Return () \<and> calls w2 = calls w @ [(WriteFile p ?c, True)]
                      \<and> files w2 p = Some ?c"
        let ?w' = "console_log (''Successfully saved '' @ n @ '' to '' @ path_string p) w2"
        have "decodeAndSave d p n w = (Return (), ?w')"
          unfolding decodeAndSave_reaches_try [OF strip nb]
          using w2(1) ok by (simp add: try_catch_def and_then_def)
        moreover have "artifact_handled d p n w ?w'"
          using strip nb ok
          by (simp add: artifact_handled_def new_calls_def console_log_def console_print_def)
        ultimately show ?thesis
          using w2(2-4) ok by (auto simp: console_log_def console_print_def)
      next
        assume bad: "r1 = Throw (FsError (WriteFile p ?c))
                       \<and> calls w2 = calls w @ [(WriteFile p ?c, False)]"
        let ?w3 = "console_error
                     (''Problematic base64 data (first 50 chars): '' @ take 50 b @ ''...'')
                     (console_print ERROR
                        (''Error decoding/saving '' @ n @ '' (path: '' @ path_string p @ ''):'')
                        (ExtraError (FsError (WriteFile p ?c))) w2)"
        from fs_unlink_frame [of p ?w3]
        obtain r4 w4 u where w4: "fs_unlink p ?w3 = (r4, w4)"
          "dirs w4 = dirs ?w3" "console w4 = console ?w3"
          "\<forall>q. q \<noteq> p \<longrightarrow> files w4 q = files ?w3 q"
          "calls w4 = calls ?w3 @ [(Unlink p, u)]"
          by blast
        have run: "decodeAndSave d p n w = (Return (), w4)"
          unfolding decodeAndSave_reaches_try [OF strip nb]
          using w2(1) bad w4(1)
          by (cases r4) (simp_all add: try_catch_def and_then_def)
        have lines: "console w4 = console w @ ws
               @ [(ERROR, ''Error decoding/saving '' @ n @ '' (path: '' @ path_string p @ ''):'',
                   ExtraError (FsError (WriteFile p ?c))),
                  (ERROR, ''Problematic base64 data (first 50 chars): '' @ take 50 b @ ''...'',
                   NoExtra)]"
          using w4(3) w2(3) by (simp add: console_error_def console_print_def)
        have calls: "calls w4 = calls w @ [(WriteFile p ?c, False), (Unlink p, u)]"
          using w4(5) bad by (simp add: console_error_def console_print_def)
        have "artifact_handled d p n w w4"
          using strip nb
          by (simp add: artifact_handled_def new_calls_def new_lines_def lines calls)
        then show ?thesis
          using run lines calls w4(2,4) w2(2,4)
          by (auto simp: console_error_def console_print_def)
      qed
    qed
  qed
qed

lemma fs_writeFile_ReturnD:
  assumes "fs_writeFile p d w = (Return u, w')"
  shows "dirs w' = dirs w \<and> console w' = console w
    \<and> calls w' = calls w @ [(WriteFile p d, True)]
    \<and> files w' p = Some d \<and> (\<forall>q. q \<noteq> p \<longrightarrow> files w' q = files w q)"
  using assms fs_writeFile_cases [of p d w] by auto

lemma fs_writeFile_ThrowD:
  assumes "fs_writeFile p d w = (Throw e, w')"
  shows "e = FsError (WriteFile p d) \<and> dirs w' = dirs w \<and> console w' = console w
    \<and> calls w' = calls w @ [(WriteFile p d, False)]
    \<and> (\<forall>q. q \<noteq> p \<longrightarrow> files w' q = files w q)"
  using assms fs_writeFile_cases [of p d w] by auto

lemma analyzer_result_block_reaches_try:
  assumes "stripDataUrlPrefixAndGetBase64 (out ''analyzer_result'') = (Some b, ws)" and "b \<noteq> []"
  shows "analyzer_result_block rt out dir w =
           try_catch
             (\<lambda>w. case JSON_parse rt (toString_utf8 rt (Buffer_from_base64 b)) of
                     None \<Rightarrow> (Throw SyntaxError, w)
                   | Some analysisData \<Rightarrow>
                       and_then
                         (fs_writeFile (path_join dir ''analysis.json'')
                            (Text (JSON_stringify rt analysisData)))
                         (\<lambda>_ w. (Return (),
                                  console_log
                                    (''Successfully saved analysis.json to ''
                                       @ path_string (path_join dir ''analysis.json'')) w)) w)
             (analyzer_result_catch rt dir b)
             (w\<lparr>console := console w @ ws\<rparr>)"
proof -
  have "analyzer_result_catch rt dir b = (\<lambda>error w. analyzer_result_catch rt dir b error w)"
    by simp
  then show ?thesis
    using assms strip_Some_truthy [OF assms(1)]
    by (simp add: analyzer_result_block_def Let_def analyzer_result_catch_def)
qed

text \<open>The catch block, when it returns, has printed the error and touched the diagnostic file only.\<close>

lemma analyzer_result_catch_Return:
  assumes "analyzer_result_catch rt dir b e w = (Return (), w')"
  shows "dirs w' = dirs w \<and> prefix (calls w) (calls w')
    \<and> (\<forall>q. q \<noteq> path_join dir ''_error_analyzer_result_content.txt'' \<longrightarrow> files w' q = files w q)
    \<and> prefix (console w @ [(ERROR, ''Error processing analyzer_result for analysis.json:'',
                           ExtraError e)]) (console w')"
proof -
  let ?d = "path_join dir ''_error_analyzer_result_content.txt''"
  let ?w3 = "console_error
               (''Problematic base64 for JSON (first 50 chars): '' @ take 50 b @ ''...'')
               (console_print ERROR ''Error processing analyzer_result for analysis.json:''
                  (ExtraError e) w)"
  let ?c1 = "Text (''Attempted to decode this as JSON (from base64):'' @ newline @ newline
                     @ toString_utf8 rt (Buffer_from_base64 b))"
  let ?c2 = "Text (''Could not even base64 decode this for the error file. ''
                     @ ''Original base64 (after prefix strip):'' @ newline @ newline @ b)"
  let ?saved = "''Saved problematic decoded content (or base64) to '' @ path_string ?d"
  have w3: "dirs ?w3 = dirs w" "calls ?w3 = calls w" "files ?w3 = files w"
    "console ?w3 = console w
       @ [(ERROR, ''Error processing analyzer_result for analysis.json:'', ExtraError e),
          (ERROR, ''Problematic base64 for JSON (first 50 chars): '' @ take 50 b @ ''...'',
           NoExtra)]"
    by (simp_all add: console_error_def console_print_def)
  obtain r4 w4 where w4: "fs_writeFile ?d ?c1 ?w3 = (r4, w4)"
    by (cases "fs_writeFile ?d ?c1 ?w3") auto
  show ?thesis
  proof (cases r4)
    case (Return u)
    have "analyzer_result_catch rt dir b e w = (Return (), console_error ?saved w4)"
      using w4 Return
      by (simp add: analyzer_result_catch_def Let_def try_catch_def and_then_def)
    then have "w' = console_error ?saved w4" using assms by simp
    then show ?thesis
      using fs_writeFile_ReturnD [OF w4 [unfolded Return]] w3
      by (auto simp: console_error_def console_print_def prefix_def)
  next
    case (Throw e4)
    note first = fs_writeFile_ThrowD [OF w4 [unfolded Throw]]
    obtain r5 w5 where w5: "fs_writeFile ?d ?c2 w4 = (r5, w5)"
      by (cases "fs_writeFile ?d ?c2 w4") auto
    show ?thesis
    proof (cases r5)
      case (Return u)
      have "analyzer_result_catch rt dir b e w = (Return (), console_error ?saved w5)"
        using w4 Throw w5 Return
        by (simp add: analyzer_result_catch_def Let_def try_catch_def and_then_def)
      then have "w' = console_error ?saved w5" using assms by simp
      then show ?thesis
        using fs_writeFile_ReturnD [OF w5 [unfolded Return]] first w3
        by (auto simp: console_error_def console_print_def prefix_def)
    next
      case (Throw e5)
      have "analyzer_result_catch rt dir b e w = (Throw e5, w5)"
        using w4 \<open>r4 = Throw e4\<close> w5 Throw
        by (simp add: analyzer_result_catch_def Let_def try_catch_def and_then_def)
      then show ?thesis using assms by simp
    qed
  qed
qed

lemma analyzer_result_block_handles:
  assumes "analyzer_result_block rt out dir w = (Return (), w')"
  shows "dirs w' = dirs w
    \<and> prefix (calls w) (calls w') \<and> prefix (console w) (console w')
    \<and> (\<forall>q. q \<noteq> path_join dir ''analysis.json''
            \<and> q \<noteq> path_join dir ''_error_analyzer_result_content.txt''
            \<longrightarrow> files w' q = files w q)
    \<and> json_handled rt (out ''analyzer_result'') dir w w'"
proof (cases "stripDataUrlPrefixAndGetBase64 (out ''analyzer_result'')")
  case (Pair r ws)
  show ?thesis
  proof (cases r)
    case None
    then show ?thesis
      using assms Pair
      by (auto simp: analyzer_result_block_def json_handled_def console_warn_def
            console_print_def split: if_splits)
  next
    case (Some b)
    note strip = Pair [unfolded Some]
    show ?thesis
    proof (cases "b = []")
      case True
      then show ?thesis
        using assms strip
        by (auto simp: analyzer_result_block_def json_handled_def console_warn_def
              console_print_def split: if_splits)
    next
      case False
      let ?j = "path_join dir ''analysis.json''"
      let ?w1 = "w\<lparr>console := console w @ ws\<rparr>"
      note reach = analyzer_result_block_reaches_try
        [where out = out and rt = rt and dir = dir and w = w, OF strip False]
      show ?thesis
      proof (cases "JSON_parse rt (toString_utf8 rt (Buffer_from_base64 b))")
        case None
        have "analyzer_result_catch rt dir b SyntaxError ?w1 = (Return (), w')"
          using assms None unfolding reach by (simp add: try_catch_def)
        from analyzer_result_catch_Return [OF this]
        show ?thesis
          using strip False None
          by (auto simp: json_handled_def new_lines_def prefix_def)
      next
        case (Some v)
        let ?c = "Text (JSON_stringify rt v)"
        obtain r2 w2 where w2: "fs_writeFile ?j ?c ?w1 = (r2, w2)"
          by (cases "fs_writeFile ?j ?c ?w1") auto
        show ?thesis
        proof (cases r2)
          case (Return u)
          have "analyzer_result_block rt out dir w
                  = (Return (),
                     console_log (''Successfully saved analysis.json to '' @ path_string ?j) w2)"
            unfolding reach using Some w2 Return by (simp add: try_catch_def and_then_def)
          then have "w' = console_log (''Successfully saved analysis.json to '' @ path_string ?j) w2"
            using assms by simp
          then show ?thesis
            using fs_writeFile_ReturnD [OF w2 [unfolded Return]] strip False Some
            by (auto simp: json_handled_def new_calls_def console_log_def console_print_def
                  prefix_def)
        next
          case (Throw e)
          note bad = fs_writeFile_ThrowD [OF w2 [unfolded Throw]]
          have "analyzer_result_catch rt dir b e w2 = (Return (), w')"
            using assms Some w2 Throw unfolding reach by (simp add: try_catch_def and_then_def)
          from analyzer_result_catch_Return [OF this]
          have after: "dirs w' = dirs w2" "prefix (calls w2) (calls w')"
            "\<forall>q. q \<noteq> path_join dir ''_error_analyzer_result_content.txt'' \<longrightarrow> files w' q = files w2 q"
            "prefix (console w2 @ [(ERROR, ''Error processing analyzer_result for analysis.json:'',
                                    ExtraError e)]) (console w')"
            by simp_all
          obtain cs where cs: "calls w' = calls w @ (WriteFile ?j ?c, False) # cs"
            using after(2) bad by (auto simp: prefix_def)
          obtain ls where ls: "console w' = console w @ ws
              @ (ERROR, ''Error processing analyzer_result for analysis.json:'',
                 ExtraError (FsError (WriteFile ?j ?c))) # ls"
            using after(4) bad by (auto simp: prefix_def)
          have "json_handled rt (out ''analyzer_result'') dir w w'"
            using strip False Some
            by (simp add: json_handled_def new_calls_def new_lines_def cs ls)
          then show ?thesis
            using after(1,3) bad cs ls by (auto simp: prefix_def)
        qed
      qed
    qed
  qed
qed

lemma not_truthy_strip: "\<not> truthy d \<Longrightarrow> fst (stripDataUrlPrefixAndGetBase64 d) = None"
  by (auto simp: truthy_def stripDataUrlPrefixAndGetBase64_def split: option.splits)

lemma visualization_block_handles:
  "\<exists>w'. visualization_block out dir w = (Return (), w')
     \<and> dirs w' = dirs w
     \<and> prefix (calls w) (calls w') \<and> prefix (console w) (console w')
     \<and> (\<forall>q. q \<noteq> path_join dir ''visualization.png'' \<longrightarrow> files w' q = files w q)
     \<and> artifact_handled (out ''visualization'') (path_join dir ''visualization.png'')
         ''visualization.png'' w w'"
proof (cases "truthy (out ''visualization'')")
  case True
  then show ?thesis
    using decodeAndSave_handles
      [of "out ''visualization''" "path_join dir ''visualization.png''" "''visualization.png''" w]
    by (simp add: visualization_block_def)
next
  case False
  then show ?thesis
    by (simp add: visualization_block_def artifact_handled_def not_truthy_strip
          console_warn_def console_print_def)
qed

lemma audio_file_name_inj: "audio_file_name k = audio_file_name k' \<Longrightarrow> k = k'"
  by (auto simp: audio_file_name_def split: if_splits)

lemma audio_loop_Cons:
  "audio_loop out dir (k # ks) w =
     (if truthy (out k)
      then and_then (decodeAndSave (out k) (path_join dir (audio_file_name k)) (audio_file_name k))
             (\<lambda>_. audio_loop out dir ks) w
      else audio_loop out dir ks (console_warn (k @ '' not found in output or is empty.'') w))"
  by (simp add: Let_def audio_file_name_def)

text \<open>
  The audio loop in any world, whatever fails: it returns having handled every key, and
  touches no file but those of its keys.
\<close>

lemma audio_loop_handles:
  assumes "distinct ks"
  shows "\<exists>w'. audio_loop out dir ks w = (Return (), w')
     \<and> dirs w' = dirs w
     \<and> prefix (calls w) (calls w') \<and> prefix (console w) (console w')
     \<and> (\<forall>q. q \<notin> (\<lambda>k. path_join dir (audio_file_name k)) ` set ks \<longrightarrow> files w' q = files w q)
     \<and> (\<forall>k \<in> set ks. artifact_handled (out k) (path_join dir (audio_file_name k))
                          (audio_file_name k) w w')"
  using assms
proof (induction ks arbitrary: w)
  case Nil
  then show ?case by simp
next
  case (Cons k ks)
  let ?p = "\<lambda>k. path_join dir (audio_file_name k)"
  have fresh: "?p k \<notin> ?p ` set ks"
    using Cons.prems by (auto simp: path_join_def dest: audio_file_name_inj)
  obtain w1 where w1: "audio_loop out dir (k # ks) w = audio_loop out dir ks w1"
    "dirs w1 = dirs w" "prefix (calls w) (calls w1)" "prefix (console w) (console w1)"
    "\<forall>q. q \<noteq> ?p k \<longrightarrow> files w1 q = files w q"
    "artifact_handled (out k) (?p k) (audio_file_name k) w w1"
  proof (cases "truthy (out k)")
    case True
    from decodeAndSave_handles [of "out k" "?p k" "audio_file_name k" w]
    obtain w1 where s: "decodeAndSave (out k) (?p k) (audio_file_name k) w = (Return (), w1)"
      "dirs w1 = dirs w" "prefix (calls w) (calls w1)" "prefix (console w) (console w1)"
      "\<forall>q. q \<noteq> ?p k \<longrightarrow> files w1 q = files w q"
      "artifact_handled (out k) (?p k) (audio_file_name k) w w1"
      by blast
    have "audio_loop out dir (k # ks) w = audio_loop out dir ks w1"
      unfolding audio_loop_Cons using True s(1) by (simp add: and_then_def)
    then show ?thesis using s(2-6) that by blast
  next
    case False
    let ?w1 = "console_warn (k @ '' not found in output or is empty.'') w"
    have "audio_loop out dir (k # ks) w = audio_loop out dir ks ?w1"
      unfolding audio_loop_Cons using False by simp
    moreover have "artifact_handled (out k) (?p k) (audio_file_name k) w ?w1"
      using False by (simp add: artifact_handled_def not_truthy_strip)
    ultimately show ?thesis
      using that [of ?w1] by (simp add: console_warn_def console_print_def)
  qed
  from Cons.IH [of w1] Cons.prems
  obtain w' where w': "audio_loop out dir ks w1 = (Return (), w')"
    "dirs w' = dirs w1" "prefix (calls w1) (calls w')" "prefix (console w1) (console w')"
    "\<forall>q. q \<notin> ?p ` set ks \<longrightarrow> files w' q = files w1 q"
    "\<forall>k \<in> set ks. artifact_handled (out k) (?p k) (audio_file_name k) w1 w'"
    by auto
  have first: "artifact_handled (out k) (?p k) (audio_file_name k) w w'"
    using w1(6) _ w1(3) w'(3) _ w1(4) w'(4)
  proof (rule artifact_handled_mono)
    show "prefix (calls w) (calls w)" by simp
    show "prefix (console w) (console w)" by simp
    show "files w' (?p k) = files w1 (?p k)" using w'(5) fresh by blast
  qed
  have rest: "\<forall>k' \<in> set ks. artifact_handled (out k') (?p k') (audio_file_name k') w w'"
  proof
    fix k' assume "k' \<in> set ks"
    then have "artifact_handled (out k') (?p k') (audio_file_name k') w1 w'"
      using w'(6) by blast
    then show "artifact_handled (out k') (?p k') (audio_file_name k') w w'"
      using w1(3) w'(3) _ w1(4) w'(4)
    proof (rule artifact_handled_mono)
      show "prefix (calls w') (calls w')" by simp
      show "prefix (console w') (console w')" by simp
      show "files w' (?p k') = files w' (?p k')" by simp
    qed
  qed
  show ?case
  proof (intro exI [of _ w'] conjI)
    show "audio_loop out dir (k # ks) w = (Return (), w')" using w1(1) w'(1) by simp
    show "dirs w' = dirs w" using w1(2) w'(2) by simp
    show "prefix (calls w) (calls w')" using w1(3) w'(3) by (rule prefix_order.trans)
    show "prefix (console w) (console w')" using w1(4) w'(4) by (rule prefix_order.trans)
    show "\<forall>q. q \<notin> ?p ` set (k # ks) \<longrightarrow> files w' q = files w q"
      using w1(5) w'(5) by auto
    show "\<forall>k \<in> set (k # ks). artifact_handled (out k) (?p k) (audio_file_name k) w w'"
      using first rest by simp
  qed
qed


subsection \<open>What can make the persister reject\<close>

text \<open>
  C1, as stated, fails: \<^verbatim>\<open>fs.mkdir\<close> is awaited outside every \<^verbatim>\<open>try\<close>, and so is the
  last-resort write of the diagnostic file, inside the \<^verbatim>\<open>catch\<close> of the attempt before
  it. When creating the directory fails, and when both attempts to write the diagnostic
  file fail, \<^verbatim>\<open>processAnalysisResults\<close> rejects. The first is how the program is built:
  \<^verbatim>\<open>main\<close> catches what escapes. The second departs from \<^verbatim>\<open>decodeAndSave\<close>, whose
  \<^verbatim>\<open>catch\<close> block swallows the failure of its own clean-up.
\<close>

theorem persist_can_reject:
  "fst (processAnalysisResults literal_runtime (response_with (Some sample_output))
          OUTPUT_DIRECTORY (empty_world\<lparr>faults := [Fails]\<rparr>))
     = Throw (FsError (Mkdir OUTPUT_DIRECTORY))
   \<and> fst (processAnalysisResults literal_runtime (response_with (Some broken_output))
          OUTPUT_DIRECTORY (empty_world\<lparr>faults := [Succeeds, Fails, Fails]\<rparr>))
     = Throw (FsError (WriteFile (OUTPUT_DIRECTORY, ''_error_analyzer_result_content.txt'')
         (Text (''Could not even base64 decode this for the error file. ''
                  @ ''Original base64 (after prefix strip):'' @ newline @ newline @ ''e!w==''))))"
  by code_simp

lemma fs_mkdir_fails:
  assumes "\<not> mkdir_succeeds w"
  shows "\<exists>w1. fs_mkdir dir w = (Throw (FsError (Mkdir dir)), w1)
           \<and> new_calls w w1 = [(Mkdir dir, False)]"
  using assms
  by (cases "faults w")
     (auto simp: mkdir_succeeds_def fs_mkdir_def next_outcome_def called_def new_calls_def)

lemma fs_mkdir_Return:
  assumes "mkdir_succeeds w"
  shows "fs_mkdir dir w =
           (Return (),
            w\<lparr>dirs := insert dir (dirs w), calls := calls w @ [(Mkdir dir, True)],
              faults := tl (faults w)\<rparr>)"
  using assms
  by (cases "faults w")
     (auto simp: mkdir_succeeds_def fs_mkdir_def next_outcome_def called_def)

text \<open>
  C1, amended. Let the response carry an output bundle. When \<^verbatim>\<open>fs.mkdir\<close> fails,
  \<^verbatim>\<open>processAnalysisResults\<close> rejects with its error, having made no other call. When it
  succeeds, then in every run that does not end in the error of a write of the diagnostic
  file (about which nothing is said here), whatever else fails: the function returns;
  the JSON field was either saved or its failure printed; for the image and for every
  audio field that holds something, the write of its decoded bytes was made, and either it
  succeeded and the file holds the bytes at the end, or it failed and the error lines of
  that field were printed; and the run went through all fields, down to its final line.
\<close>

theorem persist_isolates_field_failures:
  fixes rt :: "'j runtime" and dir :: string and w :: world and r :: ApiPredictionResponse
  assumes "api_output r = Some out"
  defines "res \<equiv> processAnalysisResults rt r dir w"
  shows "(\<not> mkdir_succeeds w \<longrightarrow>
            fst res = Throw (FsError (Mkdir dir)) \<and> new_calls w (snd res) = [(Mkdir dir, False)])
    \<and> (mkdir_succeeds w
         \<and> (\<forall>c. fst res \<noteq> Throw (FsError (WriteFile
                      (path_join dir ''_error_analyzer_result_content.txt'') c))) \<longrightarrow>
          fst res = Return ()
          \<and> dir \<in> dirs (snd res)
          \<and> json_handled rt (out ''analyzer_result'') dir w (snd res)
          \<and> (\<forall>k \<in> set (''visualization'' # audioFileKeys).
                artifact_handled (out k) (path_join dir (artifact_file k)) (artifact_file k)
                  w (snd res))
          \<and> last (console (snd res))
              = (LOG, ''--- Finished processing all output fields ---'', NoExtra))"
proof (intro conjI impI)
  let ?rest = "\<lambda>(_::unit) w. and_then (analyzer_result_block rt out dir)
                 (\<lambda>_. and_then (visualization_block out dir)
                    (\<lambda>_ w.
                       and_then (audio_loop out dir audioFileKeys)
                         (\<lambda>_ w. (Return (),
                                  console_log ''--- Finished processing all output fields ---'' w))
                         (console_log (newline @ ''--- Processing Audio Files ---'') w)))
                 (console_log (''Ensured output directory exists: '' @ dir) w)"
  have unfold: "res = and_then (fs_mkdir dir) ?rest w"
    by (simp add: res_def processAnalysisResults_def assms(1))
  {
    assume "\<not> mkdir_succeeds w"
    from fs_mkdir_fails [OF this, of dir]
    obtain w1 where w1: "fs_mkdir dir w = (Throw (FsError (Mkdir dir)), w1)"
      "new_calls w w1 = [(Mkdir dir, False)]" by blast
    have "res = (Throw (FsError (Mkdir dir)), w1)"
      unfolding unfold by (simp only: and_then_Throw [where m = "fs_mkdir dir", OF w1(1)])
    then show "fst res = Throw (FsError (Mkdir dir))"
      and "new_calls w (snd res) = [(Mkdir dir, False)]"
      using w1(2) by simp_all
  }
  assume hyp: "mkdir_succeeds w
         \<and> (\<forall>c. fst res \<noteq> Throw (FsError (WriteFile
                      (path_join dir ''_error_analyzer_result_content.txt'') c)))"
  let ?j = "path_join dir ''analysis.json''"
  let ?v = "path_join dir ''visualization.png''"
  let ?a = "\<lambda>k. path_join dir (audio_file_name k)"
  let ?w0 = "w\<lparr>dirs := insert dir (dirs w), calls := calls w @ [(Mkdir dir, True)],
               faults := tl (faults w)\<rparr>"
  let ?w1 = "console_log (''Ensured output directory exists: '' @ dir) ?w0"
  have mk: "fs_mkdir dir w = (Return (), ?w0)"
    using hyp by (simp add: fs_mkdir_Return)
  have w1: "dirs ?w1 = insert dir (dirs w)" "prefix (calls w) (calls ?w1)"
    "prefix (console w) (console ?w1)"
    by (simp_all add: console_log_def console_print_def)
  obtain ra w2 where blk: "analyzer_result_block rt out dir ?w1 = (ra, w2)"
    by (cases "analyzer_result_block rt out dir ?w1") auto
  have ra: "ra = Return ()"
  proof (cases ra)
    case (Return u)
    then show ?thesis by simp
  next
    case (Throw e)
    from analyzer_result_block_throws [OF blk [unfolded Throw]]
    obtain c where "e = FsError (WriteFile (path_join dir ''_error_analyzer_result_content.txt'') c)"
      by blast
    moreover have "res = (Throw e, w2)"
      unfolding unfold
      by (simp only: and_then_Return [where m = "fs_mkdir dir", OF mk]
            and_then_Throw [where m = "analyzer_result_block rt out dir",
                            OF blk [unfolded Throw]])
    ultimately show ?thesis using hyp by simp
  qed
  note json = analyzer_result_block_handles [OF blk [unfolded ra]]
  from visualization_block_handles [of out dir w2]
  obtain w3 where w3: "visualization_block out dir w2 = (Return (), w3)"
    "dirs w3 = dirs w2" "prefix (calls w2) (calls w3)" "prefix (console w2) (console w3)"
    "\<forall>q. q \<noteq> ?v \<longrightarrow> files w3 q = files w2 q"
    "artifact_handled (out ''visualization'') ?v ''visualization.png'' w2 w3"
    by blast
  let ?w3 = "console_log (newline @ ''--- Processing Audio Files ---'') w3"
  have keys: "distinct audioFileKeys"
    by (simp add: audioFileKeys_def)
  from audio_loop_handles [OF keys, of out dir ?w3]
  obtain w4 where w4: "audio_loop out dir audioFileKeys ?w3 = (Return (), w4)"
    "dirs w4 = dirs ?w3" "prefix (calls ?w3) (calls w4)" "prefix (console ?w3) (console w4)"
    "\<forall>q. q \<notin> ?a ` set audioFileKeys \<longrightarrow> files w4 q = files ?w3 q"
    "\<forall>k \<in> set audioFileKeys. artifact_handled (out k) (?a k) (audio_file_name k) ?w3 w4"
    by blast
  let ?w5 = "console_log ''--- Finished processing all output fields ---'' w4"
  have run: "res = (Return (), ?w5)"
    unfolding unfold
    by (simp only: and_then_Return [where m = "fs_mkdir dir", OF mk]
          and_then_Return [where m = "analyzer_result_block rt out dir", OF blk [unfolded ra]]
          and_then_Return [where m = "visualization_block out dir", OF w3(1)]
          and_then_Return [where m = "audio_loop out dir audioFileKeys", OF w4(1)])
  have c12: "prefix (calls ?w1) (calls w2)" and l12: "prefix (console ?w1) (console w2)"
    using json by simp_all
  have c33: "prefix (calls w3) (calls ?w3)" and l33: "prefix (console w3) (console ?w3)"
    by (simp_all add: console_log_def console_print_def)
  have c45: "prefix (calls w4) (calls ?w5)" and l45: "prefix (console w4) (console ?w5)"
    by (simp_all add: console_log_def console_print_def)
  have c25: "prefix (calls w2) (calls ?w5)"
    using w3(3) c33 w4(3) c45 by (meson prefix_order.trans)
  have l25: "prefix (console w2) (console ?w5)"
    using w3(4) l33 w4(4) l45 by (meson prefix_order.trans)
  have c35: "prefix (calls w3) (calls ?w5)"
    using c33 w4(3) c45 by (meson prefix_order.trans)
  have l35: "prefix (console w3) (console ?w5)"
    using l33 w4(4) l45 by (meson prefix_order.trans)
  have c02: "prefix (calls w) (calls w2)"
    using w1(2) c12 by (rule prefix_order.trans)
  have l02: "prefix (console w) (console w2)"
    using w1(3) l12 by (rule prefix_order.trans)
  have c03: "prefix (calls w) (calls ?w3)"
    using c02 w3(3) c33 by (meson prefix_order.trans)
  have l03: "prefix (console w) (console ?w3)"
    using l02 w3(4) l33 by (meson prefix_order.trans)
  have jv: "?j \<noteq> ?v" "?j \<notin> ?a ` set audioFileKeys" "?v \<notin> ?a ` set audioFileKeys"
    by (simp_all add: path_join_def audioFileKeys_def audio_file_name_def)
  show "fst res = Return ()" by (simp add: run)
  show "dir \<in> dirs (snd res)"
    using json w3(2) w4(2) w1(1)
    by (simp add: run console_log_def console_print_def)
  show "json_handled rt (out ''analyzer_result'') dir w (snd res)"
    unfolding run snd_conv
  proof (rule json_handled_mono)
    show "json_handled rt (out ''analyzer_result'') dir ?w1 w2" using json by simp
    show "prefix (calls w) (calls ?w1)" by (rule w1(2))
    show "prefix (calls ?w1) (calls w2)" by (rule c12)
    show "prefix (calls w2) (calls ?w5)" by (rule c25)
    show "prefix (console w) (console ?w1)" by (rule w1(3))
    show "prefix (console ?w1) (console w2)" by (rule l12)
    show "prefix (console w2) (console ?w5)" by (rule l25)
    have "files w4 ?j = files ?w3 ?j" using w4(5) jv(2) by blast
    moreover have "files w3 ?j = files w2 ?j" using w3(5) jv(1) by blast
    ultimately show "files ?w5 ?j = files w2 ?j"
      by (simp add: console_log_def console_print_def)
  qed
  have vis: "artifact_handled (out ''visualization'') ?v ''visualization.png'' w ?w5"
  proof (rule artifact_handled_mono)
    show "artifact_handled (out ''visualization'') ?v ''visualization.png'' w2 w3" by (rule w3(6))
    show "prefix (calls w) (calls w2)" by (rule c02)
    show "prefix (calls w2) (calls w3)" by (rule w3(3))
    show "prefix (calls w3) (calls ?w5)" by (rule c35)
    show "prefix (console w) (console w2)" by (rule l02)
    show "prefix (console w2) (console w3)" by (rule w3(4))
    show "prefix (console w3) (console ?w5)" by (rule l35)
    have "files w4 ?v = files ?w3 ?v" using w4(5) jv(3) by blast
    then show "files ?w5 ?v = files w3 ?v"
      by (simp add: console_log_def console_print_def)
  qed
  have audio: "\<forall>k \<in> set audioFileKeys.
                 artifact_handled (out k) (?a k) (audio_file_name k) w ?w5"
  proof
    fix k assume "k \<in> set audioFileKeys"
    then have "artifact_handled (out k) (?a k) (audio_file_name k) ?w3 w4"
      using w4(6) by blast
    then show "artifact_handled (out k) (?a k) (audio_file_name k) w ?w5"
      using c03 w4(3) c45 l03 w4(4) l45
    proof (rule artifact_handled_mono)
      show "files ?w5 (?a k) = files w4 (?a k)"
        by (simp add: console_log_def console_print_def)
    qed
  qed
  have names: "\<forall>k \<in> set audioFileKeys. artifact_file k = audio_file_name k"
    by (simp add: audioFileKeys_def artifact_file_def audio_file_name_def)
  show "\<forall>k \<in> set (''visualization'' # audioFileKeys).
                artifact_handled (out k) (path_join dir (artifact_file k)) (artifact_file k)
                  w (snd res)"
    using vis audio names by (simp add: run artifact_file_def)
  show "last (console (snd res))
              = (LOG, ''--- Finished processing all output fields ---'', NoExtra)"
    by (simp add: run console_log_def console_print_def)
qed

theorem persist_isolates_field_failures_witness:
  "api_output (response_with (Some sample_output)) = Some sample_output
   \<and> mkdir_succeeds (empty_world\<lparr>faults := [Succeeds, Succeeds, Fails, Fails]\<rparr>)
   \<and> fst (processAnalysisResults literal_runtime (response_with (Some sample_output))
            OUTPUT_DIRECTORY (empty_world\<lparr>faults := [Succeeds, Succeeds, Fails, Fails]\<rparr>))
       = Return ()
   \<and> json_handled literal_runtime (sample_output ''analyzer_result'') OUTPUT_DIRECTORY
        (empty_world\<lparr>faults := [Succeeds, Succeeds, Fails, Fails]\<rparr>)
        (snd (processAnalysisResults literal_runtime (response_with (Some sample_output))
            OUTPUT_DIRECTORY (empty_world\<lparr>faults := [Succeeds, Succeeds, Fails, Fails]\<rparr>)))
   \<and> artifact_handled (sample_output ''visualization'')
        (OUTPUT_DIRECTORY, ''visualization.png'') ''visualization.png''
        (empty_world\<lparr>faults := [Succeeds, Succeeds, Fails, Fails]\<rparr>)
        (snd (processAnalysisResults literal_runtime (response_with (Some sample_output))
            OUTPUT_DIRECTORY (empty_world\<lparr>faults := [Succeeds, Succeeds, Fails, Fails]\<rparr>)))
   \<and> files (snd (processAnalysisResults literal_runtime (response_with (Some sample_output))
            OUTPUT_DIRECTORY (empty_world\<lparr>faults := [Succeeds, Succeeds, Fails, Fails]\<rparr>)))
        (OUTPUT_DIRECTORY, ''visualization.png'') = None
   \<and> artifact_handled (sample_output ''sonification'')
        (OUTPUT_DIRECTORY, ''sonification.mp3'') ''sonification.mp3''
        (empty_world\<lparr>faults := [Succeeds, Succeeds, Fails, Fails]\<rparr>)
        (snd (processAnalysisResults literal_runtime (response_with (Some sample_output))
            OUTPUT_DIRECTORY (empty_world\<lparr>faults := [Succeeds, Succeeds, Fails, Fails]\<rparr>)))
   \<and> files (snd (processAnalysisResults literal_runtime (response_with (Some sample_output))
            OUTPUT_DIRECTORY (empty_world\<lparr>faults := [Succeeds, Succeeds, Fails, Fails]\<rparr>)))
        (OUTPUT_DIRECTORY, ''sonification.mp3'') = Some (Bytes [0x52, 0x49, 0x46])
   \<and> last (console (snd (processAnalysisResults literal_runtime (response_with (Some sample_output))
            OUTPUT_DIRECTORY (empty_world\<lparr>faults := [Succeeds, Succeeds, Fails, Fails]\<rparr>))))
       = (LOG, ''--- Finished processing all output fields ---'', NoExtra)
   \<and> map snd (written_paths (calls (snd (processAnalysisResults literal_runtime
            (response_with (Some sample_output))
            OUTPUT_DIRECTORY (empty_world\<lparr>faults := [Succeeds, Succeeds, Fails, Fails]\<rparr>)))))
       = [''analysis.json'', ''demucs_bass.wav'', ''demucs_drums.wav'', ''demucs_guitar.wav'',
          ''demucs_other.wav'', ''demucs_piano.wav'', ''demucs_vocals.wav'',
          ''mdx_instrumental.wav'', ''mdx_other.wav'', ''mdx_vocals.wav'', ''sonification.mp3'']
   \<and> \<not> mkdir_succeeds (empty_world\<lparr>faults := [Fails]\<rparr>)
   \<and> fst (processAnalysisResults literal_runtime (response_with (Some sample_output))
            OUTPUT_DIRECTORY (empty_world\<lparr>faults := [Fails]\<rparr>))
       = Throw (FsError (Mkdir OUTPUT_DIRECTORY))
   \<and> new_calls (empty_world\<lparr>faults := [Fails]\<rparr>)
        (snd (processAnalysisResults literal_runtime (response_with (Some sample_output))
            OUTPUT_DIRECTORY (empty_world\<lparr>faults := [Fails]\<rparr>)))
       = [(Mkdir OUTPUT_DIRECTORY, False)]"
proof -
  let ?r = "response_with (Some sample_output)"
  let ?w = "empty_world\<lparr>faults := [Succeeds, Succeeds, Fails, Fails]\<rparr>"
  let ?u = "empty_world\<lparr>faults := [Fails]\<rparr>"
  have out: "api_output ?r = Some sample_output"
    by (simp add: response_with_def)
  have mk: "mkdir_succeeds ?w" "\<not> mkdir_succeeds ?u"
    by (simp_all add: mkdir_succeeds_def)
  have run: "fst (processAnalysisResults literal_runtime ?r OUTPUT_DIRECTORY ?w) = Return ()"
    by code_simp
  have vis: "files (snd (processAnalysisResults literal_runtime ?r OUTPUT_DIRECTORY ?w))
               (OUTPUT_DIRECTORY, ''visualization.png'') = None"
    by code_simp
  have son: "files (snd (processAnalysisResults literal_runtime ?r OUTPUT_DIRECTORY ?w))
               (OUTPUT_DIRECTORY, ''sonification.mp3'') = Some (Bytes [0x52, 0x49, 0x46])"
    by code_simp
  have paths: "map snd (written_paths (calls (snd (processAnalysisResults literal_runtime ?r
                 OUTPUT_DIRECTORY ?w))))
       = [''analysis.json'', ''demucs_bass.wav'', ''demucs_drums.wav'', ''demucs_guitar.wav'',
          ''demucs_other.wav'', ''demucs_piano.wav'', ''demucs_vocals.wav'',
          ''mdx_instrumental.wav'', ''mdx_other.wav'', ''mdx_vocals.wav'', ''sonification.mp3'']"
    by code_simp
  have names: "artifact_file ''visualization'' = ''visualization.png''"
    "artifact_file ''sonification'' = ''sonification.mp3''"
    "''sonification'' \<in> set audioFileKeys"
    by (simp_all add: artifact_file_def audioFileKeys_def)
  note good = persist_isolates_field_failures
      [where rt = literal_runtime and r = ?r and out = sample_output
         and dir = OUTPUT_DIRECTORY and w = ?w, OF out]
  note bad = persist_isolates_field_failures
      [where rt = literal_runtime and r = ?r and out = sample_output
         and dir = OUTPUT_DIRECTORY and w = ?u, OF out]
  from good mk(1) run
  have g: "json_handled literal_runtime (sample_output ''analyzer_result'') OUTPUT_DIRECTORY ?w
             (snd (processAnalysisResults literal_runtime ?r OUTPUT_DIRECTORY ?w))"
    "\<forall>k \<in> set (''visualization'' # audioFileKeys).
        artifact_handled (sample_output k) (path_join OUTPUT_DIRECTORY (artifact_file k))
          (artifact_file k) ?w
          (snd (processAnalysisResults literal_runtime ?r OUTPUT_DIRECTORY ?w))"
    "last (console (snd (processAnalysisResults literal_runtime ?r OUTPUT_DIRECTORY ?w)))
       = (LOG, ''--- Finished processing all output fields ---'', NoExtra)"
    by simp_all
  from g(2) names
  have h: "artifact_handled (sample_output ''visualization'')
        (OUTPUT_DIRECTORY, ''visualization.png'') ''visualization.png'' ?w
        (snd (processAnalysisResults literal_runtime ?r OUTPUT_DIRECTORY ?w))"
    "artifact_handled (sample_output ''sonification'')
        (OUTPUT_DIRECTORY, ''sonification.mp3'') ''sonification.mp3'' ?w
        (snd (processAnalysisResults literal_runtime ?r OUTPUT_DIRECTORY ?w))"
    by (auto simp: path_join_def)
  from bad mk(2)
  have b: "fst (processAnalysisResults literal_runtime ?r OUTPUT_DIRECTORY ?u)
             = Throw (FsError (Mkdir OUTPUT_DIRECTORY))"
    "new_calls ?u (snd (processAnalysisResults literal_runtime ?r OUTPUT_DIRECTORY ?u))
       = [(Mkdir OUTPUT_DIRECTORY, False)]"
    by simp_all
  show ?thesis
    by (intro conjI) (fact out mk run g h vis son paths b)+
qed

end
